theory Spec2Isabelle
  imports Main
begin

section \<open>The dbt-to-explore translator of Lightdash\<close>

text \<open>
  A shallow embedding of the translator functions \<^verbatim>\<open>convertDimension\<close>,
  \<^verbatim>\<open>convertDbtMetricToLightdashMetric\<close>, \<^verbatim>\<open>convertTable\<close>,
  \<^verbatim>\<open>modelCanUseMetric\<close>, \<^verbatim>\<open>convertExplores\<close> and \<^verbatim>\<open>attachTypesToModels\<close>.
  A thrown exception is the left injection of a sum, an optional property is an
  \<open>option\<close>, and a JavaScript object used as a dictionary is an association list in
  creation order.
\<close>

subsection \<open>JavaScript values\<close>

text \<open>
  A thrown \<^verbatim>\<open>Error\<close>: its \<^verbatim>\<open>name\<close> and its \<^verbatim>\<open>message\<close>
  (\<open>None\<close> when the property is undefined).
\<close>

record js_error =
  name :: string
  message :: "string option"

text \<open>
  Truthiness of an optional string: \<^verbatim>\<open>undefined\<close> and the empty string are falsy.
  \<open>or_str a b\<close> is \<^verbatim>\<open>a || b\<close> for a string \<open>b\<close>;
  \<open>or_opt a b\<close> is \<^verbatim>\<open>a || b\<close> for an optional \<open>b\<close>.
\<close>

definition truthy :: "string option \<Rightarrow> bool" where
  "truthy a = (case a of None \<Rightarrow> False | Some s \<Rightarrow> s \<noteq> [])"

definition or_str :: "string option \<Rightarrow> string \<Rightarrow> string" where
  "or_str a b = (case a of None \<Rightarrow> b | Some s \<Rightarrow> if s = [] then b else s)"

definition or_opt :: "string option \<Rightarrow> string option \<Rightarrow> string option" where
  "or_opt a b = (if truthy a then a else b)"

text \<open>\<^verbatim>\<open>m[0]\<close> on an array: undefined when the array is empty.\<close>

definition first_elem :: "'a list \<Rightarrow> 'a option" where
  "first_elem xs = (case xs of [] \<Rightarrow> None | x # _ \<Rightarrow> Some x)"

text \<open>\<^verbatim>\<open>list.join(sep)\<close>\<close>

fun joinWith :: "string \<Rightarrow> string list \<Rightarrow> string" where
  "joinWith sep [] = []"
| "joinWith sep [x] = x"
| "joinWith sep (x # y # ys) = x @ sep @ joinWith sep (y # ys)"

text \<open>
  \<^verbatim>\<open>String.prototype.toLowerCase\<close> is a built-in of the engine that maps every cased
  letter of Unicode. The translator takes it as a parameter (the field \<open>toLowerCase\<close> of
  the collaborators below, the argument \<open>lower\<close> of the functions that read the warehouse
  catalog), so that nothing depends on how it maps a letter. \<open>lowerASCII\<close> is what it
  does on a text whose letters are among A to Z and a to z; the examples use it.
\<close>

definition lowerASCIIChar :: "char \<Rightarrow> char" where
  "lowerASCIIChar c =
     (case map_of (zip ''ABCDEFGHIJKLMNOPQRSTUVWXYZ'' ''abcdefghijklmnopqrstuvwxyz'') c of
        None \<Rightarrow> c
      | Some l \<Rightarrow> l)"

definition lowerASCII :: "string \<Rightarrow> string" where
  "lowerASCII s = map lowerASCIIChar s"

subsection \<open>Objects used as dictionaries\<close>

text \<open>
  An object is the list of its own properties in creation order. Writing a property that
  exists keeps its place; a new property goes to the end. Enumeration
  (\<^verbatim>\<open>Object.keys\<close>, \<^verbatim>\<open>Object.values\<close>, \<^verbatim>\<open>Object.entries\<close>, spread) visits
  the keys that are array indices first, in ascending numeric order, and then the other
  keys in creation order.
\<close>

type_synonym 'v js_object = "(string \<times> 'v) list"

definition digitValue :: "char \<Rightarrow> nat option" where
  "digitValue c = map_of (zip ''0123456789'' [0, 1, 2, 3, 4, 5, 6, 7, 8, 9]) c"

definition decimalValue :: "string \<Rightarrow> nat" where
  "decimalValue k = foldl (\<lambda>n c. 10 * n + (case digitValue c of None \<Rightarrow> 0 | Some d \<Rightarrow> d)) 0 k"

definition isArrayIndex :: "string \<Rightarrow> bool" where
  "isArrayIndex k \<longleftrightarrow>
     k \<noteq> [] \<and> list_all (\<lambda>c. digitValue c \<noteq> None) k \<and>
     (k = ''0'' \<or> hd k \<noteq> CHR ''0'') \<and> decimalValue k < 4294967295"

definition obj_entries :: "'v js_object \<Rightarrow> (string \<times> 'v) list" where
  "obj_entries obj =
     sort_key (\<lambda>kv. decimalValue (fst kv)) (filter (\<lambda>kv. isArrayIndex (fst kv)) obj) @
     filter (\<lambda>kv. \<not> isArrayIndex (fst kv)) obj"

text \<open>The order of enumeration, on the keys alone.\<close>

definition keyOrder :: "string list \<Rightarrow> string list" where
  "keyOrder ks = sort_key decimalValue (filter isArrayIndex ks) @ filter (\<lambda>k. \<not> isArrayIndex k) ks"

definition obj_keys :: "'v js_object \<Rightarrow> string list" where
  "obj_keys obj = map fst (obj_entries obj)"

definition obj_values :: "'v js_object \<Rightarrow> 'v list" where
  "obj_values obj = map snd (obj_entries obj)"

definition obj_get :: "'v js_object \<Rightarrow> string \<Rightarrow> 'v option" where
  "obj_get obj k = map_of obj k"

definition obj_set :: "'v js_object \<Rightarrow> string \<Rightarrow> 'v \<Rightarrow> 'v js_object" where
  "obj_set obj k v =
     (if map_of obj k = None then obj @ [(k, v)]
      else map (\<lambda>kv. if fst kv = k then (k, v) else kv) obj)"

text \<open>\<^verbatim>\<open>{ ...a, ...b }\<close>\<close>

definition obj_spread :: "'v js_object \<Rightarrow> 'v js_object \<Rightarrow> 'v js_object" where
  "obj_spread a b = foldl (\<lambda>acc kv. obj_set acc (fst kv) (snd kv)) a (obj_entries b)"

definition obj_fromEntries :: "(string \<times> 'v) list \<Rightarrow> 'v js_object" where
  "obj_fromEntries es = foldl (\<lambda>acc kv. obj_set acc (fst kv) (snd kv)) [] es"

text \<open>
  Reading \<^verbatim>\<open>obj[k]\<close> also finds what an object literal inherits from
  \<^verbatim>\<open>Object.prototype\<close>, so \<^verbatim>\<open>obj[k] !== undefined\<close> holds for these names whatever
  the object's own properties are.
\<close>

definition objectPrototypeKeys :: "string list" where
  "objectPrototypeKeys =
     [''constructor'', ''hasOwnProperty'', ''isPrototypeOf'', ''propertyIsEnumerable'',
      ''toLocaleString'', ''toString'', ''valueOf'', ''__proto__'', ''__defineGetter__'',
      ''__defineSetter__'', ''__lookupGetter__'', ''__lookupSetter__'']"

definition obj_defined :: "'v js_object \<Rightarrow> string \<Rightarrow> bool" where
  "obj_defined obj k \<longleftrightarrow> obj_get obj k \<noteq> None \<or> k \<in> set objectPrototypeKeys"

subsection \<open>dbt metrics\<close>

record DbtMetricFilter =
  field :: string
  operator :: string
  "value" :: string

record DbtMetricMeta =
  hidden :: "bool option"
  round :: "int option"
  compact :: "string option"
  format :: "string option"
  group_label :: "string option"
  show_underlying_values :: "string list option"
  filters :: "(string \<times> string) list list option"
  urls :: "(string \<times> string) list option"

record DbtMetric =
  unique_id :: string
  name :: string
  label :: "string option"
  description :: "string option"
  calculation_method :: string
  expression :: "string option"
  filters :: "DbtMetricFilter list option"
  metrics :: "string list list option"
  refs :: "string list list option"
  meta :: "DbtMetricMeta option"

text \<open>\<^verbatim>\<open>(metric.metrics || []).map((m) => m[0])\<close>\<close>

definition referencedMetrics :: "DbtMetric \<Rightarrow> string option list" where
  "referencedMetrics metric =
     map first_elem (case DbtMetric.metrics metric of None \<Rightarrow> [] | Some ms \<Rightarrow> ms)"

text \<open>\<^verbatim>\<open>metric.refs?.[0]?.[0]\<close>\<close>

definition modelRef :: "DbtMetric \<Rightarrow> string option" where
  "modelRef metric =
     (case refs metric of
        None \<Rightarrow> None
      | Some rs \<Rightarrow> (case first_elem rs of None \<Rightarrow> None | Some r \<Rightarrow> first_elem r))"

subsection \<open>Which metrics a model may use\<close>

text \<open>
  \<^verbatim>\<open>modelCanUseMetric\<close> calls itself for every metric an expression metric refers to
  and has no guard against a cycle of references. The first argument of the model is the
  depth of calls that is still available: every call uses one level, and \<open>None\<close> says
  that the call did not return within that depth. \<^verbatim>\<open>Array.prototype.every\<close> stops at the
  first callback that returns false. A reference \<^verbatim>\<open>m[0]\<close> that is undefined names no
  metric, so \<^verbatim>\<open>find\<close> fails and the call returns false.
\<close>

fun modelCanUseMetric :: "nat \<Rightarrow> string option \<Rightarrow> string \<Rightarrow> DbtMetric list \<Rightarrow> bool option"
  and every_modelCanUseMetric :: "nat \<Rightarrow> string option list \<Rightarrow> string \<Rightarrow> DbtMetric list \<Rightarrow> bool option"
where
  "modelCanUseMetric 0 metricName modelName ms = None"
| "modelCanUseMetric (Suc depth) metricName modelName ms =
     (case find (\<lambda>m. Some (DbtMetric.name m) = metricName) ms of
        None \<Rightarrow> Some False
      | Some metric \<Rightarrow>
          if modelRef metric = Some modelName then Some True
          else if calculation_method metric = ''expression''
          then every_modelCanUseMetric depth (referencedMetrics metric) modelName ms
          else Some False)"
| "every_modelCanUseMetric depth [] modelName ms = Some True"
| "every_modelCanUseMetric depth (m # rest) modelName ms =
     (case modelCanUseMetric depth m modelName ms of
        None \<Rightarrow> None
      | Some False \<Rightarrow> Some False
      | Some True \<Rightarrow> every_modelCanUseMetric depth rest modelName ms)"

text \<open>
  The reference relation of the expression metrics of a list: the name of an expression
  metric is related to every name listed in its \<^verbatim>\<open>metrics\<close> field.
\<close>

definition metricReferences :: "DbtMetric list \<Rightarrow> (string option \<times> string option) list" where
  "metricReferences ms =
     concat (map (\<lambda>m. if calculation_method m = ''expression''
                       then map (\<lambda>r. (Some (DbtMetric.name m), r)) (referencedMetrics m)
                       else []) ms)"

subsection \<open>Fields, tables and explores\<close>

text \<open>
  Modelled from the spec: the enum \<^verbatim>\<open>DimensionType\<close> of \<^verbatim>\<open>types/field\<close> is not among
  the sources; its members are the ones the data model of the specification lists. A type
  read from a dbt file or a manifest is any string, so a value of that kind is either a
  member of the enum or a string that is none of its values.
\<close>

datatype DimensionType = STRING | NUMBER | BOOLEAN | DATE | TIMESTAMP

datatype type_value = Recognised DimensionType | Unrecognised string

definition DimensionType_values :: "DimensionType list" where
  "DimensionType_values = [STRING, NUMBER, BOOLEAN, DATE, TIMESTAMP]"

text \<open>
  Modelled from the spec: the string values of the enum are not given; the model renders a
  member by its name. They only occur in the text of an error message.
\<close>

fun DimensionType_text :: "DimensionType \<Rightarrow> string" where
  "DimensionType_text STRING = ''string''"
| "DimensionType_text NUMBER = ''number''"
| "DimensionType_text BOOLEAN = ''boolean''"
| "DimensionType_text DATE = ''date''"
| "DimensionType_text TIMESTAMP = ''timestamp''"

text \<open>
  Modelled from the spec: the enum \<^verbatim>\<open>MetricType\<close> is not among the sources. The code
  names its member \<^verbatim>\<open>NUMBER\<close>; every other aggregation kind is kept by its identifier.
\<close>

datatype MetricType = NUMBER | Aggregation string

datatype FieldType = DIMENSION | METRIC

datatype SupportedDbtAdapter = BIGQUERY | SNOWFLAKE | REDSHIFT | POSTGRES | DATABRICKS | TRINO

type_synonym Source = string

type_synonym FieldUrl = "string \<times> string"

record Dimension =
  fieldType :: FieldType
  name :: string
  label :: string
  sql :: string
  table :: string
  tableLabel :: string
  type :: DimensionType
  description :: "string option"
  source :: "Source option"
  group :: "string option"
  timeInterval :: "string option"
  hidden :: bool
  format :: "string option"
  round :: "int option"
  compact :: "string option"
  groupLabel :: "string option"
  urls :: "FieldUrl list option"

record 'pf Metric =
  fieldType :: FieldType
  type :: MetricType
  isAutoGenerated :: bool
  name :: string
  label :: string
  table :: string
  tableLabel :: string
  sql :: string
  description :: "string option"
  source :: "Source option"
  hidden :: bool
  round :: "int option"
  compact :: "string option"
  format :: "string option"
  groupLabel :: "string option"
  showUnderlyingValues :: "string list option"
  filters :: 'pf
  urls :: "FieldUrl list option"

record LineageNodeDependency =
  type :: string
  name :: string

type_synonym LineageGraph = "LineageNodeDependency list js_object"

record 'pf Table =
  name :: string
  label :: string
  database :: string
  schema :: string
  sqlTable :: string
  description :: string
  dimensions :: "Dimension js_object"
  metrics :: "'pf Metric js_object"
  lineageGraph :: "LineageGraph option"

record ExploreErrorEntry =
  type :: "string option"
  message :: "string option"

record ExploreError =
  name :: string
  label :: string
  tags :: "string list option"
  errors :: "ExploreErrorEntry list"

datatype 'x explore_result = IsExplore 'x | IsExploreError ExploreError

subsection \<open>dbt models\<close>

datatype time_intervals = TimeIntervalsString string | TimeIntervalsList "string list"

record DbtColumnDimensionMeta =
  name :: "string option"
  label :: "string option"
  type :: "type_value option"
  description :: "string option"
  sql :: "string option"
  time_intervals :: "time_intervals option"
  hidden :: "bool option"
  round :: "int option"
  format :: "string option"
  compact :: "string option"
  group_label :: "string option"
  urls :: "FieldUrl list option"

record 'cm DbtColumnMeta =
  dimension :: "DbtColumnDimensionMeta option"
  metrics :: "'cm js_object option"

record 'cm DbtModelColumn =
  name :: string
  description :: "string option"
  data_type :: "type_value option"
  meta :: "'cm DbtColumnMeta"

record DbtModelJoin =
  join :: string
  sql_on :: string

record DbtModelMeta =
  label :: "string option"
  joins :: "DbtModelJoin list option"

record DbtModelConfig =
  meta :: "DbtModelMeta option"

record 'cm DbtModelNode =
  unique_id :: string
  name :: string
  database :: string
  schema :: string
  relation_name :: "string option"
  description :: "string option"
  columns :: "'cm DbtModelColumn js_object"
  config :: "DbtModelConfig option"
  meta :: DbtModelMeta
  tags :: "string list option"
  patch_path :: "string option"
  compiled :: bool

subsection \<open>Collaborators that the translator imports\<close>

text \<open>
  The helpers that the translator imports from other modules are parameters of the model:
  the functions of \<^verbatim>\<open>types/field\<close>, \<^verbatim>\<open>types/dbt\<close>, \<^verbatim>\<open>types/filterGrammar\<close>,
  \<^verbatim>\<open>utils/timeFrames\<close> and \<^verbatim>\<open>exploreCompiler\<close>. A helper whose call the translator
  wraps in \<^verbatim>\<open>try\<close> (\<^verbatim>\<open>parseMetricType\<close>, \<^verbatim>\<open>compileExplore\<close>), or that the
  specification says rejects an input (\<^verbatim>\<open>validateTimeFrames\<close>), returns a sum; the
  others, the queries of the dependency graph among them, are taken to return.
  \<^verbatim>\<open>timeFrameConfigs\<close> is a table with an entry for every time frame.
  \<^verbatim>\<open>convertMetric\<close> takes the properties of its argument in the order
  \<^verbatim>\<open>modelName\<close>, \<^verbatim>\<open>dimensionName\<close>, \<^verbatim>\<open>dimensionSql\<close>, \<^verbatim>\<open>name\<close>,
  \<^verbatim>\<open>metric\<close>, \<^verbatim>\<open>tableLabel\<close>, and \<^verbatim>\<open>compileExplore\<close> in the order
  \<^verbatim>\<open>name\<close>, \<^verbatim>\<open>label\<close>, \<^verbatim>\<open>tags\<close>, \<^verbatim>\<open>baseTable\<close>, \<^verbatim>\<open>joinedTables\<close>
  (pairs of \<^verbatim>\<open>table\<close> and \<^verbatim>\<open>sqlOn\<close>), \<^verbatim>\<open>tables\<close>, \<^verbatim>\<open>targetDatabase\<close>.
  The field \<open>toLowerCase\<close> is not an import: it is \<^verbatim>\<open>String.prototype.toLowerCase\<close> of
  the engine, kept with the other parameters.
\<close>

record TimeFrameConfig =
  getSql :: "SupportedDbtAdapter \<Rightarrow> string \<Rightarrow> string \<Rightarrow> DimensionType \<Rightarrow> string"
  getLabel :: string
  getDimensionType :: "DimensionType \<Rightarrow> DimensionType"

record DepGraph =
  dependantsOf :: "string \<Rightarrow> string list"
  dependenciesOf :: "string \<Rightarrow> string list"
  directDependenciesOf :: "string \<Rightarrow> string list"
  getNodeData :: "string \<Rightarrow> LineageNodeDependency"

record ('cm, 'pf, 'x) Collaborators =
  toLowerCase :: "string \<Rightarrow> string"
  friendlyName :: "string \<Rightarrow> string"
  defaultSql :: "string \<Rightarrow> string"
  timeFrameConfigs :: "string \<Rightarrow> TimeFrameConfig"
  validateTimeFrames :: "string list \<Rightarrow> js_error + string list"
  getDefaultTimeFrames :: "DimensionType \<Rightarrow> string list"
  convertMetric :: "string \<Rightarrow> string \<Rightarrow> string \<Rightarrow> string \<Rightarrow> 'cm \<Rightarrow> string \<Rightarrow> 'pf Metric"
  parseMetricType :: "string \<Rightarrow> js_error + MetricType"
  parseFilters :: "(string \<times> string) list list option \<Rightarrow> 'pf"
  compileExplore :: "string \<Rightarrow> string \<Rightarrow> string list \<Rightarrow> string \<Rightarrow> (string \<times> string) list \<Rightarrow>
                     'pf Table js_object \<Rightarrow> SupportedDbtAdapter \<Rightarrow> js_error + 'x"
  buildModelGraph :: "'cm DbtModelNode list \<Rightarrow> DepGraph"

text \<open>
  Modelled from the spec: the error classes of \<^verbatim>\<open>types/errors\<close> are not among the
  sources; the name of each is the error kind that the specification gives it.
\<close>

definition NonCompiledModelError :: "string \<Rightarrow> js_error" where
  "NonCompiledModelError msg = \<lparr>js_error.name = ''NonCompiledModelError'', message = Some msg\<rparr>"

definition MissingCatalogEntryError :: "string \<Rightarrow> js_error" where
  "MissingCatalogEntryError msg = \<lparr>js_error.name = ''MissingCatalogEntryError'', message = Some msg\<rparr>"

definition ParseError :: "string \<Rightarrow> js_error" where
  "ParseError msg = \<lparr>js_error.name = ''ParseError'', message = Some msg\<rparr>"

definition Error :: "string \<Rightarrow> js_error" where
  "Error msg = \<lparr>js_error.name = ''Error'', message = Some msg\<rparr>"

subsection \<open>Dimensions\<close>

fun convertTimezone :: "string \<Rightarrow> string \<Rightarrow> string \<Rightarrow> SupportedDbtAdapter \<Rightarrow> string" where
  "convertTimezone timestampSql default_source_tz target_tz BIGQUERY = timestampSql"
| "convertTimezone timestampSql default_source_tz target_tz SNOWFLAKE =
     ''TO_TIMESTAMP_NTZ(CONVERT_TIMEZONE('UTC', '' @ timestampSql @ ''))''"
| "convertTimezone timestampSql default_source_tz target_tz REDSHIFT = timestampSql"
| "convertTimezone timestampSql default_source_tz target_tz POSTGRES = timestampSql"
| "convertTimezone timestampSql default_source_tz target_tz DATABRICKS = timestampSql"
| "convertTimezone timestampSql default_source_tz target_tz TRINO = timestampSql"

text \<open>\<^verbatim>\<open>column.meta.dimension?.f\<close>\<close>

definition dimensionMeta :: "'cm DbtModelColumn \<Rightarrow> (DbtColumnDimensionMeta \<Rightarrow> 'a option) \<Rightarrow> 'a option" where
  "dimensionMeta column f =
     (case DbtColumnMeta.dimension (DbtModelColumn.meta column) of None \<Rightarrow> None | Some d \<Rightarrow> f d)"

text \<open>\<^verbatim>\<open>a || b\<close> for a type: undefined and the empty string are falsy.\<close>

definition or_type :: "type_value option \<Rightarrow> type_value \<Rightarrow> type_value" where
  "or_type a b =
     (case a of
        None \<Rightarrow> b
      | Some (Recognised t) \<Rightarrow> Recognised t
      | Some (Unrecognised s) \<Rightarrow> if s = [] then b else Unrecognised s)"

text \<open>
  \<^verbatim>\<open>column.meta.dimension?.type || column.data_type || DimensionType.STRING\<close>
\<close>

definition resolvedType :: "'cm DbtModelColumn \<Rightarrow> type_value" where
  "resolvedType column =
     or_type (dimensionMeta column DbtColumnDimensionMeta.type)
       (or_type (data_type column) (Recognised STRING))"

definition unrecognisedTypeMessage :: "string \<Rightarrow> string \<Rightarrow> string \<Rightarrow> string" where
  \<open>unrecognisedTypeMessage t columnName modelName =
     ''Could not recognise type "'' @ t @ ''" for dimension "'' @ columnName @
     ''" in dbt model "'' @ modelName @ ''". Valid types are: '' @
     joinWith '', '' (map DimensionType_text DimensionType_values)\<close>

definition convertDimension ::
  "('cm, 'pf, 'x) Collaborators \<Rightarrow> SupportedDbtAdapter \<Rightarrow> 'cm DbtModelNode \<Rightarrow> string \<Rightarrow>
   'cm DbtModelColumn \<Rightarrow> Source option \<Rightarrow> string option \<Rightarrow> js_error + Dimension" where
  "convertDimension env targetWarehouse model tableLabel' column source' timeInterval' =
     (case resolvedType column of
        Unrecognised t \<Rightarrow>
          Inl (MissingCatalogEntryError
                 (unrecognisedTypeMessage t (DbtModelColumn.name column) (DbtModelNode.name model)))
      | Recognised type0 \<Rightarrow>
          let name0 = or_str (dimensionMeta column DbtColumnDimensionMeta.name)
                        (DbtModelColumn.name column);
              sql0 = or_str (dimensionMeta column DbtColumnDimensionMeta.sql)
                       (defaultSql env (DbtModelColumn.name column));
              label0 = or_str (dimensionMeta column DbtColumnDimensionMeta.label)
                         (friendlyName env name0);
              sql1 = (if type0 = TIMESTAMP
                      then convertTimezone sql0 ''UTC'' ''UTC'' targetWarehouse else sql0);
              interval = (if truthy timeInterval' then timeInterval' else None)
          in Inr \<lparr> Dimension.fieldType = DIMENSION,
                   name = (case interval of
                             None \<Rightarrow> name0
                           | Some i \<Rightarrow> DbtModelColumn.name column @ ''_'' @ toLowerCase env i),
                   label = (case interval of
                              None \<Rightarrow> label0
                            | Some i \<Rightarrow>
                                label0 @ '' '' @ toLowerCase env (getLabel (timeFrameConfigs env i))),
                   sql = (case interval of
                            None \<Rightarrow> sql1
                          | Some i \<Rightarrow> getSql (timeFrameConfigs env i) targetWarehouse i sql1 type0),
                   table = DbtModelNode.name model,
                   tableLabel = tableLabel',
                   type = (case interval of
                             None \<Rightarrow> type0
                           | Some i \<Rightarrow> getDimensionType (timeFrameConfigs env i) type0),
                   description = or_opt (dimensionMeta column DbtColumnDimensionMeta.description)
                                   (DbtModelColumn.description column),
                   source = source',
                   group = (case interval of
                              None \<Rightarrow> None
                            | Some i \<Rightarrow> Some (DbtModelColumn.name column)),
                   timeInterval = timeInterval',
                   hidden = (dimensionMeta column DbtColumnDimensionMeta.hidden = Some True),
                   format = dimensionMeta column DbtColumnDimensionMeta.format,
                   round = dimensionMeta column DbtColumnDimensionMeta.round,
                   compact = dimensionMeta column DbtColumnDimensionMeta.compact,
                   groupLabel = dimensionMeta column DbtColumnDimensionMeta.group_label,
                   urls = dimensionMeta column DbtColumnDimensionMeta.urls \<rparr>)"

subsection \<open>dbt metrics as Lightdash metrics\<close>

text \<open>
  \<^verbatim>\<open>sql.replace(new RegExp(ref, 'g'), replacement)\<close> for a pattern \<open>ref\<close> without
  characters that a regular expression reads as operators, and a replacement without
  \<^verbatim>\<open>$\<close> patterns: every occurrence of the text \<open>pat\<close>, found from left to right
  and not overlapping an earlier one, is replaced. The empty pattern matches before every
  character and at the end. The names of dbt metrics are made of letters, digits and
  underscores; \<open>plainPattern\<close> says that a name is of that kind and not empty.
\<close>

fun replaceAll :: "string \<Rightarrow> string \<Rightarrow> string \<Rightarrow> string" where
  "replaceAll pat rep [] = (if pat = [] then rep else [])"
| "replaceAll pat rep (c # cs) =
     (if pat = [] then rep @ c # replaceAll pat rep cs
      else if take (length pat) (c # cs) = pat
      then rep @ replaceAll pat rep (drop (length pat) (c # cs))
      else c # replaceAll pat rep cs)"

definition identifierChars :: string where
  "identifierChars = ''abcdefghijklmnopqrstuvwxyzABCDEFGHIJKLMNOPQRSTUVWXYZ0123456789_''"

definition plainPattern :: "string \<Rightarrow> bool" where
  "plainPattern ref \<longleftrightarrow> ref \<noteq> [] \<and> list_all (\<lambda>c. c \<in> set identifierChars) ref"

text \<open>
  The substitution in the words of the specification: for each referenced metric name, in
  order, every occurrence of the name in the text is replaced by \<^verbatim>\<open>${name}\<close>.
\<close>

definition substituteReferences :: "string \<Rightarrow> string list \<Rightarrow> string" where
  "substituteReferences text' names =
     foldl (\<lambda>s n. replaceAll n (''${'' @ n @ ''}'') s) text' names"

text \<open>
  One step of \<^verbatim>\<open>referencedMetrics.forEach\<close>. An undefined reference makes the pattern
  of \<^verbatim>\<open>new RegExp(undefined, 'g')\<close> empty, and the template prints it as
  \<^verbatim>\<open>undefined\<close>.
\<close>

definition replaceReference :: "string \<Rightarrow> string option \<Rightarrow> string" where
  "replaceReference sql' ref =
     (case ref of
        None \<Rightarrow> replaceAll [] ''${undefined}'' sql'
      | Some r \<Rightarrow> replaceAll r (''${'' @ r @ ''}'') sql')"

text \<open>\<^verbatim>\<open>/^[a-zA-Z0-9_]+$/g.test(expression)\<close>\<close>

definition isSingleColumnName :: "string \<Rightarrow> bool" where
  "isSingleColumnName e \<longleftrightarrow> e \<noteq> [] \<and> list_all (\<lambda>c. c \<in> set identifierChars) e"

definition filterSql :: "DbtMetricFilter list \<Rightarrow> string" where
  "filterSql fs =
     joinWith '' AND ''
       (map (\<lambda>f. ''(${TABLE}.'' @ field f @ '' '' @ operator f @ '' '' @ value f @ '')'') fs)"

definition metricMeta :: "DbtMetric \<Rightarrow> (DbtMetricMeta \<Rightarrow> 'a option) \<Rightarrow> 'a option" where
  "metricMeta metric f = (case DbtMetric.meta metric of None \<Rightarrow> None | Some m \<Rightarrow> f m)"

text \<open>The type and the SQL of the metric before its filters are applied.\<close>

definition metricTypeAndSql ::
  "('cm, 'pf, 'x) Collaborators \<Rightarrow> DbtMetric \<Rightarrow> js_error + (MetricType \<times> string)" where
  \<open>metricTypeAndSql env metric =
     (if calculation_method metric = ''expression''
      then (if \<not> truthy (expression metric)
            then Inl (ParseError (''dbt expression metric "'' @ DbtMetric.name metric @
                                  ''" must have the sql field set''))
            else Inr (NUMBER, foldl replaceReference (or_str (expression metric) [])
                                (referencedMetrics metric)))
      else (case parseMetricType env (calculation_method metric) of
              Inl e \<Rightarrow>
                Inl (ParseError (''Cannot parse metric '' @ [CHR 0x27] @ DbtMetric.unique_id metric @
                                 '': type '' @ calculation_method metric @
                                 '' is not a valid Lightdash metric type''))
            | Inr type0 \<Rightarrow>
                Inr (type0,
                     if truthy (expression metric)
                     then (if isSingleColumnName (or_str (expression metric) [])
                           then defaultSql env (or_str (expression metric) [])
                           else or_str (expression metric) [])
                     else defaultSql env (DbtMetric.name metric))))\<close>

definition convertDbtMetricToLightdashMetric ::
  "('cm, 'pf, 'x) Collaborators \<Rightarrow> DbtMetric \<Rightarrow> string \<Rightarrow> string \<Rightarrow> js_error + 'pf Metric" where
  "convertDbtMetricToLightdashMetric env metric tableName tableLabel' =
     (case metricTypeAndSql env metric of
        Inl e \<Rightarrow> Inl e
      | Inr (type0, sql0) \<Rightarrow>
          Inr \<lparr> Metric.fieldType = METRIC,
                type = type0,
                isAutoGenerated = False,
                name = DbtMetric.name metric,
                label = or_str (DbtMetric.label metric) (friendlyName env (DbtMetric.name metric)),
                table = tableName,
                tableLabel = tableLabel',
                sql = (case DbtMetric.filters metric of
                         None \<Rightarrow> sql0
                       | Some fs \<Rightarrow>
                           if length fs > 0
                           then ''CASE WHEN '' @ filterSql fs @ '' THEN '' @ sql0 @ '' ELSE NULL END''
                           else sql0),
                description = DbtMetric.description metric,
                source = None,
                hidden = (metricMeta metric DbtMetricMeta.hidden = Some True),
                round = metricMeta metric DbtMetricMeta.round,
                compact = metricMeta metric DbtMetricMeta.compact,
                format = metricMeta metric DbtMetricMeta.format,
                groupLabel = metricMeta metric DbtMetricMeta.group_label,
                showUnderlyingValues = metricMeta metric DbtMetricMeta.show_underlying_values,
                filters = parseFilters env (metricMeta metric DbtMetricMeta.filters),
                urls = metricMeta metric DbtMetricMeta.urls \<rparr>)"

subsection \<open>Tables\<close>

text \<open>\<^verbatim>\<open>model.config?.meta || model.meta\<close>\<close>

definition modelMeta :: "'cm DbtModelNode \<Rightarrow> DbtModelMeta" where
  "modelMeta model =
     (case config model of
        None \<Rightarrow> DbtModelNode.meta model
      | Some c \<Rightarrow> (case DbtModelConfig.meta c of None \<Rightarrow> DbtModelNode.meta model | Some m \<Rightarrow> m))"

definition modelLabel :: "('cm, 'pf, 'x) Collaborators \<Rightarrow> 'cm DbtModelNode \<Rightarrow> string" where
  "modelLabel env model =
     or_str (DbtModelMeta.label (modelMeta model)) (friendlyName env (DbtModelNode.name model))"

text \<open>
  The condition under which a column gets its time interval dimensions:
  \<^verbatim>\<open>(time_intervals && time_intervals !== 'OFF') || !time_intervals\<close>.
\<close>

definition truthyIntervals :: "time_intervals option \<Rightarrow> bool" where
  "truthyIntervals ti =
     (case ti of
        None \<Rightarrow> False
      | Some (TimeIntervalsString s) \<Rightarrow> s \<noteq> []
      | Some (TimeIntervalsList l) \<Rightarrow> True)"

definition expandsIntervals :: "Dimension \<Rightarrow> 'cm DbtModelColumn \<Rightarrow> bool" where
  "expandsIntervals dimension' column \<longleftrightarrow>
     Dimension.type dimension' \<in> set [DATE, TIMESTAMP] \<and>
     ((truthyIntervals (dimensionMeta column time_intervals) \<and>
       dimensionMeta column time_intervals \<noteq> Some (TimeIntervalsString ''OFF'')) \<or>
      \<not> truthyIntervals (dimensionMeta column time_intervals))"

text \<open>
  The intervals of a column: the validated list when \<^verbatim>\<open>time_intervals\<close> is an array,
  the default time frames of the type otherwise.
\<close>

definition columnIntervals ::
  "('cm, 'pf, 'x) Collaborators \<Rightarrow> Dimension \<Rightarrow> 'cm DbtModelColumn \<Rightarrow> js_error + string list" where
  "columnIntervals env dimension' column =
     (case dimensionMeta column time_intervals of
        Some (TimeIntervalsList l) \<Rightarrow> validateTimeFrames env l
      | _ \<Rightarrow> Inr (getDefaultTimeFrames env (Dimension.type dimension')))"

text \<open>\<^verbatim>\<open>intervals.reduce(..., {})\<close>, started from \<open>acc\<close>.\<close>

fun extraDimensionsReduce ::
  "('cm, 'pf, 'x) Collaborators \<Rightarrow> SupportedDbtAdapter \<Rightarrow> 'cm DbtModelNode \<Rightarrow> string \<Rightarrow>
   'cm DbtModelColumn \<Rightarrow> Dimension js_object \<Rightarrow> string list \<Rightarrow> js_error + Dimension js_object" where
  "extraDimensionsReduce env adapterType model tableLabel' column acc [] = Inr acc"
| "extraDimensionsReduce env adapterType model tableLabel' column acc (interval # rest) =
     (case convertDimension env adapterType model tableLabel' column None (Some interval) of
        Inl e \<Rightarrow> Inl e
      | Inr d \<Rightarrow>
          extraDimensionsReduce env adapterType model tableLabel' column
            (obj_set acc (DbtModelColumn.name column @ ''_'' @ interval) d) rest)"

definition columnMetrics ::
  "('cm, 'pf, 'x) Collaborators \<Rightarrow> 'cm DbtModelNode \<Rightarrow> string \<Rightarrow> Dimension \<Rightarrow>
   'cm DbtModelColumn \<Rightarrow> 'pf Metric js_object" where
  "columnMetrics env model tableLabel' dimension' column =
     obj_fromEntries
       (map (\<lambda>(name', metric').
               (name', convertMetric env (DbtModelNode.name model) (Dimension.name dimension')
                         (Dimension.sql dimension') name' metric' tableLabel'))
          (obj_entries (case DbtColumnMeta.metrics (DbtModelColumn.meta column) of
                          None \<Rightarrow> []
                        | Some ms \<Rightarrow> ms)))"

text \<open>The callback of the \<^verbatim>\<open>reduce\<close> over the columns of the model.\<close>

definition convertColumn ::
  "('cm, 'pf, 'x) Collaborators \<Rightarrow> SupportedDbtAdapter \<Rightarrow> 'cm DbtModelNode \<Rightarrow> string \<Rightarrow>
   Dimension js_object \<times> 'pf Metric js_object \<Rightarrow> 'cm DbtModelColumn \<Rightarrow>
   js_error + (Dimension js_object \<times> 'pf Metric js_object)" where
  "convertColumn env adapterType model tableLabel' prev column =
     (case convertDimension env adapterType model tableLabel' column None None of
        Inl e \<Rightarrow> Inl e
      | Inr dimension' \<Rightarrow>
          (case (if expandsIntervals dimension' column
                 then (case columnIntervals env dimension' column of
                         Inl e \<Rightarrow> Inl e
                       | Inr intervals \<Rightarrow>
                           extraDimensionsReduce env adapterType model tableLabel' column [] intervals)
                 else Inr []) of
             Inl e \<Rightarrow> Inl e
           | Inr extraDimensions \<Rightarrow>
               Inr (obj_spread (obj_set (fst prev) (DbtModelColumn.name column) dimension')
                      extraDimensions,
                    obj_spread (snd prev)
                      (columnMetrics env model tableLabel' dimension' column))))"

fun columnsReduce ::
  "('cm, 'pf, 'x) Collaborators \<Rightarrow> SupportedDbtAdapter \<Rightarrow> 'cm DbtModelNode \<Rightarrow> string \<Rightarrow>
   Dimension js_object \<times> 'pf Metric js_object \<Rightarrow> 'cm DbtModelColumn list \<Rightarrow>
   js_error + (Dimension js_object \<times> 'pf Metric js_object)" where
  "columnsReduce env adapterType model tableLabel' prev [] = Inr prev"
| "columnsReduce env adapterType model tableLabel' prev (column # rest) =
     (case convertColumn env adapterType model tableLabel' prev column of
        Inl e \<Rightarrow> Inl e
      | Inr next \<Rightarrow> columnsReduce env adapterType model tableLabel' next rest)"

text \<open>
  The keys of the dimension map that the callback writes for a column: the name of the
  column and one key for each of its intervals.
\<close>

definition columnKeys ::
  "('cm, 'pf, 'x) Collaborators \<Rightarrow> SupportedDbtAdapter \<Rightarrow> 'cm DbtModelNode \<Rightarrow> string \<Rightarrow>
   'cm DbtModelColumn \<Rightarrow> string list" where
  "columnKeys env adapterType model tableLabel' column =
     (case convertDimension env adapterType model tableLabel' column None None of
        Inl e \<Rightarrow> []
      | Inr dimension' \<Rightarrow>
          DbtModelColumn.name column #
          (if expandsIntervals dimension' column
           then (case columnIntervals env dimension' column of
                   Inl e \<Rightarrow> []
                 | Inr intervals \<Rightarrow>
                     map (\<lambda>interval. DbtModelColumn.name column @ ''_'' @ interval) intervals)
           else []))"

text \<open>
  \<^verbatim>\<open>dbtMetrics.map((metric) => [metric.name, convertDbtMetricToLightdashMetric(...)])\<close>:
  the first metric that cannot be converted throws.
\<close>

fun convertedDbtMetricEntries ::
  "('cm, 'pf, 'x) Collaborators \<Rightarrow> string \<Rightarrow> string \<Rightarrow> DbtMetric list \<Rightarrow>
   js_error + (string \<times> 'pf Metric) list" where
  "convertedDbtMetricEntries env tableName tableLabel' [] = Inr []"
| "convertedDbtMetricEntries env tableName tableLabel' (metric # rest) =
     (case convertDbtMetricToLightdashMetric env metric tableName tableLabel' of
        Inl e \<Rightarrow> Inl e
      | Inr m \<Rightarrow>
          (case convertedDbtMetricEntries env tableName tableLabel' rest of
             Inl e \<Rightarrow> Inl e
           | Inr ms \<Rightarrow> Inr ((DbtMetric.name metric, m) # ms)))"

text \<open>\<^verbatim>\<open>{ ...convertedDbtMetrics, ...metrics }\<close>\<close>

definition allMetrics :: "(string \<times> 'pf Metric) list \<Rightarrow> 'pf Metric js_object \<Rightarrow> 'pf Metric js_object" where
  "allMetrics convertedEntries metrics' = obj_spread (obj_fromEntries convertedEntries) metrics'"

definition duplicatedNames :: "'pf Metric js_object \<Rightarrow> Dimension js_object \<Rightarrow> string list" where
  "duplicatedNames allMetrics' dimensions' =
     filter (\<lambda>metric. metric \<in> set (obj_keys dimensions')) (obj_keys allMetrics')"

definition duplicatedNamesError :: "string list \<Rightarrow> js_error" where
  "duplicatedNamesError names =
     ParseError
       ((if length names > 1
         then ''Found multiple metrics and a dimensions with the same name:''
         else ''Found a metric and a dimension with the same name:'') @
        '' '' @ joinWith '','' names)"

definition convertTable ::
  "('cm, 'pf, 'x) Collaborators \<Rightarrow> SupportedDbtAdapter \<Rightarrow> 'cm DbtModelNode \<Rightarrow> DbtMetric list \<Rightarrow>
   js_error + 'pf Table" where
  "convertTable env adapterType model dbtMetrics =
     (if \<not> compiled model then Inl (NonCompiledModelError ''Model has not been compiled by dbt'')
      else
        (case columnsReduce env adapterType model (modelLabel env model) ([], [])
                (obj_values (columns model)) of
           Inl e \<Rightarrow> Inl e
         | Inr (dimensions', metrics') \<Rightarrow>
             (case convertedDbtMetricEntries env (DbtModelNode.name model) (modelLabel env model)
                     dbtMetrics of
                Inl e \<Rightarrow> Inl e
              | Inr convertedEntries \<Rightarrow>
                  if length (duplicatedNames (allMetrics convertedEntries metrics') dimensions') > 0
                  then Inl (duplicatedNamesError
                              (duplicatedNames (allMetrics convertedEntries metrics') dimensions'))
                  else if \<not> truthy (relation_name model)
                  then Inl (Error ''Model has no table relation'')
                  else Inr \<lparr> Table.name = DbtModelNode.name model,
                             label = modelLabel env model,
                             database = DbtModelNode.database model,
                             schema = DbtModelNode.schema model,
                             sqlTable = or_str (relation_name model) [],
                             description = or_str (DbtModelNode.description model)
                                             (DbtModelNode.name model @ '' table''),
                             dimensions = dimensions',
                             metrics = allMetrics convertedEntries metrics',
                             lineageGraph = None \<rparr>)))"

subsection \<open>Lineage\<close>

definition generateTableLineage :: "'cm DbtModelNode \<Rightarrow> DepGraph \<Rightarrow> LineageGraph" where
  "generateTableLineage model depGraph =
     foldl (\<lambda>prev nodeId.
              obj_set prev (LineageNodeDependency.name (getNodeData depGraph nodeId))
                (map (getNodeData depGraph) (directDependenciesOf depGraph nodeId)))
       []
       (dependantsOf depGraph (DbtModelNode.unique_id model) @
        dependenciesOf depGraph (DbtModelNode.unique_id model) @
        [DbtModelNode.unique_id model])"

definition translateDbtModelsToTableLineage ::
  "('cm, 'pf, 'x) Collaborators \<Rightarrow> 'cm DbtModelNode list \<Rightarrow> LineageGraph js_object" where
  "translateDbtModelsToTableLineage env models =
     foldl (\<lambda>previousValue currentValue.
              obj_set previousValue (DbtModelNode.name currentValue)
                (generateTableLineage currentValue (buildModelGraph env models)))
       [] models"

subsection \<open>Explores\<close>

text \<open>
  \<^verbatim>\<open>metrics.filter((metric) => modelCanUseMetric(metric.name, model.name, metrics))\<close>
  with the depth of calls that the engine allows: \<open>None\<close> when one of the calls needs
  more.
\<close>

fun tableMetricsFilter :: "nat \<Rightarrow> string \<Rightarrow> DbtMetric list \<Rightarrow> DbtMetric list \<Rightarrow> DbtMetric list option" where
  "tableMetricsFilter depth modelName [] ms = Some []"
| "tableMetricsFilter depth modelName (metric # rest) ms =
     (case modelCanUseMetric depth (Some (DbtMetric.name metric)) modelName ms of
        None \<Rightarrow> None
      | Some b \<Rightarrow>
          (case tableMetricsFilter depth modelName rest ms of
             None \<Rightarrow> None
           | Some kept \<Rightarrow> Some (if b then metric # kept else kept)))"

text \<open>
  A recursion that is deeper than the engine allows throws a \<^verbatim>\<open>RangeError\<close>, which a
  \<^verbatim>\<open>catch\<close> receives like any other error.
\<close>

definition stackOverflowError :: js_error where
  "stackOverflowError =
     \<lparr>js_error.name = ''RangeError'', message = Some ''Maximum call stack size exceeded''\<rparr>"

text \<open>
  The body of the \<^verbatim>\<open>try\<close> block of the first phase: the table of one model, with its
  lineage.
\<close>

definition convertModelTable ::
  "('cm, 'pf, 'x) Collaborators \<Rightarrow> nat \<Rightarrow> bool \<Rightarrow> SupportedDbtAdapter \<Rightarrow> DbtMetric list \<Rightarrow>
   LineageGraph js_object \<Rightarrow> 'cm DbtModelNode \<Rightarrow> js_error + 'pf Table" where
  "convertModelTable env callDepth loadSources adapterType ms tableLineage model =
     (case tableMetricsFilter callDepth (DbtModelNode.name model) ms ms of
        None \<Rightarrow> Inl stackOverflowError
      | Some tableMetrics \<Rightarrow>
          (case convertTable env adapterType model tableMetrics of
             Inl e \<Rightarrow> Inl e
           | Inr table' \<Rightarrow>
               if loadSources \<and> patch_path model \<noteq> None then Inl (Error ''Not Implemented'')
               else Inr (case obj_get tableLineage (DbtModelNode.name model) of
                           None \<Rightarrow> table'
                         | Some g \<Rightarrow> table'\<lparr>lineageGraph := Some g\<rparr>)))"

text \<open>The \<^verbatim>\<open>ExploreError\<close> that the \<^verbatim>\<open>catch\<close> block of the first phase builds.\<close>

definition tableExploreError ::
  "('cm, 'pf, 'x) Collaborators \<Rightarrow> 'cm DbtModelNode \<Rightarrow> js_error \<Rightarrow> ExploreError" where
  \<open>tableExploreError env model e =
     \<lparr> ExploreError.name = DbtModelNode.name model,
       label = modelLabel env model,
       tags = DbtModelNode.tags model,
       errors = [\<lparr> ExploreErrorEntry.type = Some (js_error.name e),
                    message = Some (or_str (js_error.message e)
                                      (''Could not convert dbt model: "'' @ DbtModelNode.name model @
                                       ''" in to a Lightdash explore'')) \<rparr>] \<rparr>\<close>

text \<open>The callback of the \<^verbatim>\<open>reduce\<close> over the models.\<close>

definition tablesStep ::
  "('cm, 'pf, 'x) Collaborators \<Rightarrow> nat \<Rightarrow> bool \<Rightarrow> SupportedDbtAdapter \<Rightarrow> DbtMetric list \<Rightarrow>
   LineageGraph js_object \<Rightarrow> 'pf Table list \<times> ExploreError list \<Rightarrow> 'cm DbtModelNode \<Rightarrow>
   'pf Table list \<times> ExploreError list" where
  "tablesStep env callDepth loadSources adapterType ms tableLineage acc model =
     (case convertModelTable env callDepth loadSources adapterType ms tableLineage model of
        Inr tableWithLineage \<Rightarrow> (fst acc @ [tableWithLineage], snd acc)
      | Inl e \<Rightarrow> (fst acc, snd acc @ [tableExploreError env model e]))"

definition tableLookup :: "'pf Table list \<Rightarrow> 'pf Table js_object" where
  "tableLookup tables = foldl (\<lambda>prev table'. obj_set prev (Table.name table') table') [] tables"

text \<open>The callback of \<^verbatim>\<open>validModels.map\<close>: the second phase for one model.\<close>

definition compileModel ::
  "('cm, 'pf, 'x) Collaborators \<Rightarrow> SupportedDbtAdapter \<Rightarrow> 'pf Table js_object \<Rightarrow>
   'cm DbtModelNode \<Rightarrow> 'x explore_result" where
  "compileModel env adapterType lookup model =
     (case compileExplore env (DbtModelNode.name model) (modelLabel env model)
             (case DbtModelNode.tags model of None \<Rightarrow> [] | Some ts \<Rightarrow> ts)
             (DbtModelNode.name model)
             (map (\<lambda>j. (join j, sql_on j))
                (case joins (modelMeta model) of None \<Rightarrow> [] | Some js \<Rightarrow> js))
             lookup adapterType of
        Inr explore \<Rightarrow> IsExplore explore
      | Inl e \<Rightarrow>
          IsExploreError
            \<lparr> ExploreError.name = DbtModelNode.name model,
              label = modelLabel env model,
              tags = None,
              errors = [\<lparr> ExploreErrorEntry.type = Some (js_error.name e),
                           message = js_error.message e \<rparr>] \<rparr>)"

definition convertExplores ::
  "('cm, 'pf, 'x) Collaborators \<Rightarrow> nat \<Rightarrow> 'cm DbtModelNode list \<Rightarrow> bool \<Rightarrow> SupportedDbtAdapter \<Rightarrow>
   DbtMetric list \<Rightarrow> 'x explore_result list" where
  "convertExplores env callDepth models loadSources adapterType ms =
     (let tablesAndErrors =
            foldl (tablesStep env callDepth loadSources adapterType ms
                     (translateDbtModelsToTableLineage env models))
              ([], []) models;
          lookup = tableLookup (fst tablesAndErrors);
          validModels = filter (\<lambda>model. obj_defined lookup (DbtModelNode.name model)) models
      in map (compileModel env adapterType lookup) validModels @
         map IsExploreError (snd tablesAndErrors))"

text \<open>
  What the two phases contribute, stated model by model: the table of a model within a run
  over \<open>models\<close>, the tables of the models whose conversion returns, and one
  \<^verbatim>\<open>ExploreError\<close> for every model whose conversion throws.
\<close>

definition modelTable ::
  "('cm, 'pf, 'x) Collaborators \<Rightarrow> nat \<Rightarrow> 'cm DbtModelNode list \<Rightarrow> bool \<Rightarrow> SupportedDbtAdapter \<Rightarrow>
   DbtMetric list \<Rightarrow> 'cm DbtModelNode \<Rightarrow> js_error + 'pf Table" where
  "modelTable env callDepth models loadSources adapterType ms model =
     convertModelTable env callDepth loadSources adapterType ms
       (translateDbtModelsToTableLineage env models) model"

definition convertedTables ::
  "('cm, 'pf, 'x) Collaborators \<Rightarrow> nat \<Rightarrow> 'cm DbtModelNode list \<Rightarrow> bool \<Rightarrow> SupportedDbtAdapter \<Rightarrow>
   DbtMetric list \<Rightarrow> 'pf Table list" where
  "convertedTables env callDepth models loadSources adapterType ms =
     concat (map (\<lambda>model. case modelTable env callDepth models loadSources adapterType ms model of
                            Inl e \<Rightarrow> []
                          | Inr t \<Rightarrow> [t]) models)"

definition tableErrors ::
  "('cm, 'pf, 'x) Collaborators \<Rightarrow> nat \<Rightarrow> 'cm DbtModelNode list \<Rightarrow> bool \<Rightarrow> SupportedDbtAdapter \<Rightarrow>
   DbtMetric list \<Rightarrow> ExploreError list" where
  "tableErrors env callDepth models loadSources adapterType ms =
     concat (map (\<lambda>model. case modelTable env callDepth models loadSources adapterType ms model of
                            Inl e \<Rightarrow> [tableExploreError env model e]
                          | Inr t \<Rightarrow> []) models)"



text \<open>The explores of a result list, in their order.\<close>

definition exploresOf :: "'x explore_result list \<Rightarrow> 'x list" where
  "exploresOf results =
     concat (map (\<lambda>r. case r of IsExplore x \<Rightarrow> [x] | IsExploreError e \<Rightarrow> []) results)"

text \<open>
  The order that the specification states: after the first \<^verbatim>\<open>ExploreError\<close> of the list
  there is no explore.
\<close>

fun errorsAfterExplores :: "'x explore_result list \<Rightarrow> bool" where
  "errorsAfterExplores [] \<longleftrightarrow> True"
| "errorsAfterExplores (IsExplore x # rest) \<longleftrightarrow> errorsAfterExplores rest"
| "errorsAfterExplores (IsExploreError e # rest) \<longleftrightarrow> exploresOf rest = []"

subsection \<open>Types from the warehouse catalog\<close>

type_synonym WarehouseCatalog = "DimensionType js_object js_object js_object js_object"

definition keyMatches :: "(string \<Rightarrow> string) \<Rightarrow> bool \<Rightarrow> string \<Rightarrow> string \<Rightarrow> bool" where
  "keyMatches lower caseSensitiveMatching key wanted \<longleftrightarrow>
     (if caseSensitiveMatching then key = wanted else lower key = lower wanted)"

text \<open>\<^verbatim>\<open>a && b\<close> for optional strings.\<close>

definition and_str :: "string option \<Rightarrow> string option \<Rightarrow> string option" where
  "and_str a b = (if truthy a then b else a)"

text \<open>\<^verbatim>\<open>obj[k]\<close> for a key \<open>k\<close> that \<^verbatim>\<open>Object.keys(obj)\<close> gave.\<close>

definition obj_at :: "'v js_object js_object \<Rightarrow> string option \<Rightarrow> 'v js_object" where
  "obj_at obj k =
     (case k of
        None \<Rightarrow> []
      | Some k' \<Rightarrow> (case obj_get obj k' of None \<Rightarrow> [] | Some v \<Rightarrow> v))"

definition databaseMatch :: "(string \<Rightarrow> string) \<Rightarrow> WarehouseCatalog \<Rightarrow> bool \<Rightarrow> 'cm DbtModelNode \<Rightarrow> string option" where
  "databaseMatch lower warehouseCatalog caseSensitiveMatching model =
     find (\<lambda>db. keyMatches lower caseSensitiveMatching db (DbtModelNode.database model))
       (obj_keys warehouseCatalog)"

definition schemaMatch :: "(string \<Rightarrow> string) \<Rightarrow> WarehouseCatalog \<Rightarrow> bool \<Rightarrow> 'cm DbtModelNode \<Rightarrow> string option" where
  "schemaMatch lower warehouseCatalog caseSensitiveMatching model =
     and_str (databaseMatch lower warehouseCatalog caseSensitiveMatching model)
       (find (\<lambda>s. keyMatches lower caseSensitiveMatching s (DbtModelNode.schema model))
          (obj_keys (obj_at warehouseCatalog
                       (databaseMatch lower warehouseCatalog caseSensitiveMatching model))))"

definition tableMatch :: "(string \<Rightarrow> string) \<Rightarrow> WarehouseCatalog \<Rightarrow> bool \<Rightarrow> 'cm DbtModelNode \<Rightarrow> string option" where
  "tableMatch lower warehouseCatalog caseSensitiveMatching model =
     and_str (databaseMatch lower warehouseCatalog caseSensitiveMatching model)
       (and_str (schemaMatch lower warehouseCatalog caseSensitiveMatching model)
          (find (\<lambda>t. keyMatches lower caseSensitiveMatching t (DbtModelNode.name model))
             (obj_keys (obj_at (obj_at warehouseCatalog
                                  (databaseMatch lower warehouseCatalog caseSensitiveMatching model))
                          (schemaMatch lower warehouseCatalog caseSensitiveMatching model)))))"

definition columnMatch ::
  "(string \<Rightarrow> string) \<Rightarrow> WarehouseCatalog \<Rightarrow> bool \<Rightarrow> 'cm DbtModelNode \<Rightarrow> string \<Rightarrow> string option" where
  "columnMatch lower warehouseCatalog caseSensitiveMatching model columnName =
     and_str (databaseMatch lower warehouseCatalog caseSensitiveMatching model)
       (and_str (schemaMatch lower warehouseCatalog caseSensitiveMatching model)
          (and_str (tableMatch lower warehouseCatalog caseSensitiveMatching model)
             (find (\<lambda>c. keyMatches lower caseSensitiveMatching c columnName)
                (obj_keys (obj_at (obj_at (obj_at warehouseCatalog
                                             (databaseMatch lower warehouseCatalog caseSensitiveMatching model))
                                     (schemaMatch lower warehouseCatalog caseSensitiveMatching model))
                             (tableMatch lower warehouseCatalog caseSensitiveMatching model))))))"

definition missingModelMessage :: "'cm DbtModelNode \<Rightarrow> string" where
  \<open>missingModelMessage model =
     ''Model "'' @ DbtModelNode.name model @ ''" was expected in your target warehouse at "'' @
     DbtModelNode.database model @ ''.'' @ DbtModelNode.schema model @ ''.'' @
     DbtModelNode.name model @ ''". Does the table exist in your target data warehouse?''\<close>

definition missingColumnMessage :: "'cm DbtModelNode \<Rightarrow> string \<Rightarrow> string" where
  \<open>missingColumnMessage model columnName =
     ''Column "'' @ columnName @ ''" from model "'' @ DbtModelNode.name model @
     ''" does not exist.'' @ [CHR 0x0A] @ '' "'' @ DbtModelNode.name model @ ''.'' @ columnName @
     ''" was not found in your target warehouse at '' @
     DbtModelNode.database model @ ''.'' @ DbtModelNode.schema model @ ''.'' @
     DbtModelNode.name model @ ''. Try rerunning dbt to update your warehouse.''\<close>

text \<open>The first loop: every model must be a table of the catalog.\<close>

fun checkModelsInWarehouse ::
  "(string \<Rightarrow> string) \<Rightarrow> 'cm DbtModelNode list \<Rightarrow> WarehouseCatalog \<Rightarrow> bool \<Rightarrow> bool \<Rightarrow> js_error + unit" where
  "checkModelsInWarehouse lower [] warehouseCatalog throwOnMissingCatalogEntry caseSensitiveMatching = Inr ()"
| "checkModelsInWarehouse lower (model # rest) warehouseCatalog throwOnMissingCatalogEntry
     caseSensitiveMatching =
     (if \<not> truthy (tableMatch lower warehouseCatalog caseSensitiveMatching model) \<and>
         throwOnMissingCatalogEntry
      then Inl (MissingCatalogEntryError (missingModelMessage model))
      else checkModelsInWarehouse lower rest warehouseCatalog throwOnMissingCatalogEntry
             caseSensitiveMatching)"

definition getType ::
  "(string \<Rightarrow> string) \<Rightarrow> WarehouseCatalog \<Rightarrow> bool \<Rightarrow> bool \<Rightarrow> 'cm DbtModelNode \<Rightarrow> string \<Rightarrow> js_error + DimensionType option" where
  "getType lower warehouseCatalog throwOnMissingCatalogEntry caseSensitiveMatching model columnName =
     (if truthy (databaseMatch lower warehouseCatalog caseSensitiveMatching model) \<and>
         truthy (schemaMatch lower warehouseCatalog caseSensitiveMatching model) \<and>
         truthy (tableMatch lower warehouseCatalog caseSensitiveMatching model) \<and>
         truthy (columnMatch lower warehouseCatalog caseSensitiveMatching model columnName)
      then Inr (obj_get
                  (obj_at (obj_at (obj_at warehouseCatalog
                                     (databaseMatch lower warehouseCatalog caseSensitiveMatching model))
                             (schemaMatch lower warehouseCatalog caseSensitiveMatching model))
                     (tableMatch lower warehouseCatalog caseSensitiveMatching model))
                  (or_str (columnMatch lower warehouseCatalog caseSensitiveMatching model columnName) []))
      else if throwOnMissingCatalogEntry
      then Inl (MissingCatalogEntryError (missingColumnMessage model columnName))
      else Inr None)"

text \<open>
  \<^verbatim>\<open>Object.entries(model.columns).map(([column_name, column]) => [column_name,
  { ...column, data_type: getType(model, column_name) }])\<close>
\<close>

fun attachColumnTypes ::
  "(string \<Rightarrow> string) \<Rightarrow> WarehouseCatalog \<Rightarrow> bool \<Rightarrow> bool \<Rightarrow> 'cm DbtModelNode \<Rightarrow> (string \<times> 'cm DbtModelColumn) list \<Rightarrow>
   js_error + (string \<times> 'cm DbtModelColumn) list" where
  "attachColumnTypes lower warehouseCatalog throwOnMissingCatalogEntry caseSensitiveMatching model [] = Inr []"
| "attachColumnTypes lower warehouseCatalog throwOnMissingCatalogEntry caseSensitiveMatching model
     ((column_name, column) # rest) =
     (case getType lower warehouseCatalog throwOnMissingCatalogEntry caseSensitiveMatching model column_name of
        Inl e \<Rightarrow> Inl e
      | Inr t \<Rightarrow>
          (case attachColumnTypes lower warehouseCatalog throwOnMissingCatalogEntry caseSensitiveMatching
                  model rest of
             Inl e \<Rightarrow> Inl e
           | Inr cs \<Rightarrow> Inr ((column_name, column\<lparr>data_type := map_option Recognised t\<rparr>) # cs)))"

fun attachModelTypes ::
  "(string \<Rightarrow> string) \<Rightarrow> WarehouseCatalog \<Rightarrow> bool \<Rightarrow> bool \<Rightarrow> 'cm DbtModelNode list \<Rightarrow> js_error + 'cm DbtModelNode list" where
  "attachModelTypes lower warehouseCatalog throwOnMissingCatalogEntry caseSensitiveMatching [] = Inr []"
| "attachModelTypes lower warehouseCatalog throwOnMissingCatalogEntry caseSensitiveMatching (model # rest) =
     (case attachColumnTypes lower warehouseCatalog throwOnMissingCatalogEntry caseSensitiveMatching model
             (obj_entries (columns model)) of
        Inl e \<Rightarrow> Inl e
      | Inr cs \<Rightarrow>
          (case attachModelTypes lower warehouseCatalog throwOnMissingCatalogEntry caseSensitiveMatching
                  rest of
             Inl e \<Rightarrow> Inl e
           | Inr ms \<Rightarrow> Inr (model\<lparr>columns := obj_fromEntries cs\<rparr> # ms)))"

definition attachTypesToModels ::
  "(string \<Rightarrow> string) \<Rightarrow> 'cm DbtModelNode list \<Rightarrow> WarehouseCatalog \<Rightarrow> bool \<Rightarrow> bool \<Rightarrow> js_error + 'cm DbtModelNode list" where
  "attachTypesToModels lower models warehouseCatalog throwOnMissingCatalogEntry caseSensitiveMatching =
     (case checkModelsInWarehouse lower models warehouseCatalog throwOnMissingCatalogEntry
             caseSensitiveMatching of
        Inl e \<Rightarrow> Inl e
      | Inr u \<Rightarrow>
          attachModelTypes lower warehouseCatalog throwOnMissingCatalogEntry caseSensitiveMatching models)"

subsection \<open>Example inputs\<close>

text \<open>
  The metrics of the scenarios of the specification: two aggregations over the model
  \<^verbatim>\<open>orders\<close> and the expression metric \<^verbatim>\<open>net\<close> that refers to both.
\<close>

definition total_revenue :: DbtMetric where
  "total_revenue =
     \<lparr> DbtMetric.unique_id = ''metric.shop.total_revenue'', DbtMetric.name = ''total_revenue'',
       DbtMetric.label = None, DbtMetric.description = None,
       DbtMetric.calculation_method = ''sum'', DbtMetric.expression = Some ''amount'',
       DbtMetric.filters = None, DbtMetric.metrics = None,
       DbtMetric.refs = Some [[''orders'']], DbtMetric.meta = None \<rparr>"

definition total_cost :: DbtMetric where
  "total_cost =
     \<lparr> DbtMetric.unique_id = ''metric.shop.total_cost'', DbtMetric.name = ''total_cost'',
       DbtMetric.label = None, DbtMetric.description = None,
       DbtMetric.calculation_method = ''sum'', DbtMetric.expression = Some ''cost'',
       DbtMetric.filters = None, DbtMetric.metrics = None,
       DbtMetric.refs = Some [[''orders'']], DbtMetric.meta = None \<rparr>"

definition net :: DbtMetric where
  "net =
     \<lparr> DbtMetric.unique_id = ''metric.shop.net'', DbtMetric.name = ''net'',
       DbtMetric.label = None, DbtMetric.description = None,
       DbtMetric.calculation_method = ''expression'',
       DbtMetric.expression = Some ''total_revenue - total_cost'',
       DbtMetric.filters = None,
       DbtMetric.metrics = Some [[''total_revenue''], [''total_cost'']],
       DbtMetric.refs = Some [], DbtMetric.meta = None \<rparr>"

definition example_metrics :: "DbtMetric list" where
  "example_metrics = [total_revenue, total_cost, net]"

text \<open>An expression metric that refers to itself.\<close>

definition self_referring :: DbtMetric where
  "self_referring =
     \<lparr> DbtMetric.unique_id = ''metric.shop.ratio'', DbtMetric.name = ''ratio'',
       DbtMetric.label = None, DbtMetric.description = None,
       DbtMetric.calculation_method = ''expression'',
       DbtMetric.expression = Some ''ratio / 2'',
       DbtMetric.filters = None,
       DbtMetric.metrics = Some [[''ratio'']],
       DbtMetric.refs = Some [], DbtMetric.meta = None \<rparr>"

text \<open>
  Stand-ins for the collaborators, used to run the translator on the examples: time frames
  are written in capitals, a column metric is given by its aggregation, an explore is
  named after its base table, and the join stage fails when a joined table is not among
  the tables.
\<close>

definition example_timeFrameConfig :: "string \<Rightarrow> TimeFrameConfig" where
  "example_timeFrameConfig i =
     \<lparr> getSql = (\<lambda>adapter interval sql' t. ''DATE_TRUNC('' @ interval @ '', '' @ sql' @ '')''),
       getLabel = i,
       getDimensionType = (\<lambda>t. DATE) \<rparr>"

definition example_convertMetric ::
  "string \<Rightarrow> string \<Rightarrow> string \<Rightarrow> string \<Rightarrow> string \<Rightarrow> string \<Rightarrow> unit Metric" where
  "example_convertMetric modelName dimensionName dimensionSql name' metric' tableLabel' =
     \<lparr> Metric.fieldType = METRIC, Metric.type = Aggregation metric',
       Metric.isAutoGenerated = False, Metric.name = name', Metric.label = name',
       Metric.table = modelName, Metric.tableLabel = tableLabel', Metric.sql = dimensionSql,
       Metric.description = None, Metric.source = None, Metric.hidden = False,
       Metric.round = None, Metric.compact = None, Metric.format = None,
       Metric.groupLabel = None, Metric.showUnderlyingValues = None, Metric.filters = (),
       Metric.urls = None \<rparr>"

definition example_parseMetricType :: "string \<Rightarrow> js_error + MetricType" where
  "example_parseMetricType s =
     (if s \<in> set [''sum'', ''count'', ''average'', ''min'', ''max'']
      then Inr (Aggregation s)
      else Inl (Error (''Cannot parse metric type '' @ s)))"

definition example_compileExplore ::
  "string \<Rightarrow> string \<Rightarrow> string list \<Rightarrow> string \<Rightarrow> (string \<times> string) list \<Rightarrow>
   unit Table js_object \<Rightarrow> SupportedDbtAdapter \<Rightarrow> js_error + string" where
  "example_compileExplore name' label' tags' baseTable joinedTables tables targetDatabase =
     (if list_all (\<lambda>j. obj_get tables (fst j) \<noteq> None) joinedTables
      then Inr baseTable
      else Inl \<lparr> js_error.name = ''CompileError'',
                 js_error.message = Some ''Failed to compile explore: joined table not found'' \<rparr>)"

definition example_graph :: DepGraph where
  "example_graph =
     \<lparr> dependantsOf = (\<lambda>nodeId. []),
       dependenciesOf = (\<lambda>nodeId. []),
       directDependenciesOf = (\<lambda>nodeId. []),
       getNodeData = (\<lambda>nodeId. \<lparr> LineageNodeDependency.type = ''model'',
                                  LineageNodeDependency.name = nodeId \<rparr>) \<rparr>"

definition example_env :: "(string, unit, string) Collaborators" where
  "example_env =
     \<lparr> toLowerCase = lowerASCII,
       friendlyName = (\<lambda>s. s),
       defaultSql = (\<lambda>c. ''${TABLE}.'' @ c),
       timeFrameConfigs = example_timeFrameConfig,
       validateTimeFrames = Inr,
       getDefaultTimeFrames = (\<lambda>t. [''DAY'', ''MONTH'']),
       convertMetric = example_convertMetric,
       parseMetricType = example_parseMetricType,
       parseFilters = (\<lambda>f. ()),
       compileExplore = example_compileExplore,
       buildModelGraph = (\<lambda>models. example_graph) \<rparr>"

definition example_column ::
  "string \<Rightarrow> type_value option \<Rightarrow> DbtColumnDimensionMeta option \<Rightarrow> string js_object option \<Rightarrow>
   string DbtModelColumn" where
  "example_column name' t d ms =
     \<lparr> DbtModelColumn.name = name', DbtModelColumn.description = None,
       DbtModelColumn.data_type = t,
       DbtModelColumn.meta = \<lparr> DbtColumnMeta.dimension = d, DbtColumnMeta.metrics = ms \<rparr> \<rparr>"

definition example_model ::
  "string \<Rightarrow> bool \<Rightarrow> string DbtModelColumn js_object \<Rightarrow> DbtModelJoin list option \<Rightarrow>
   string DbtModelNode" where
  "example_model name' c cols js =
     \<lparr> DbtModelNode.unique_id = ''model.shop.'' @ name', DbtModelNode.name = name',
       DbtModelNode.database = ''warehouse'', DbtModelNode.schema = ''shop'',
       DbtModelNode.relation_name = Some (''warehouse.shop.'' @ name'),
       DbtModelNode.description = None, DbtModelNode.columns = cols,
       DbtModelNode.config = None,
       DbtModelNode.meta = \<lparr> DbtModelMeta.label = None, DbtModelMeta.joins = js \<rparr>,
       DbtModelNode.tags = Some [], DbtModelNode.patch_path = None,
       DbtModelNode.compiled = c \<rparr>"

text \<open>
  The model \<^verbatim>\<open>orders\<close>: a number column that carries a column metric with the name of
  a dbt metric, and a date column. The model \<^verbatim>\<open>customers\<close> has not been compiled, and
  \<^verbatim>\<open>payments\<close> joins a table that is no model.
\<close>

definition amount_column :: "string DbtModelColumn" where
  "amount_column =
     example_column ''amount'' (Some (Recognised DimensionType.NUMBER)) None
       (Some [(''total_revenue'', ''max'')])"

definition created_column :: "string DbtModelColumn" where
  "created_column = example_column ''created'' (Some (Recognised DATE)) None None"

definition orders :: "string DbtModelNode" where
  "orders =
     example_model ''orders'' True
       [(''amount'', amount_column), (''created'', created_column)] None"

definition customer_id_column :: "string DbtModelColumn" where
  "customer_id_column =
     example_column ''customer_id'' (Some (Recognised DimensionType.NUMBER)) None None"

definition customers :: "string DbtModelNode" where
  "customers = example_model ''customers'' False [(''customer_id'', customer_id_column)] None"

definition payments :: "string DbtModelNode" where
  "payments =
     example_model ''payments'' True
       [(''payment_id'', example_column ''payment_id'' (Some (Recognised DimensionType.NUMBER)) None None)]
       (Some [\<lparr> join = ''refunds'', sql_on = ''${payments.payment_id} = ${refunds.payment_id}'' \<rparr>])"



text \<open>A dbt metric with the name of a column of \<^verbatim>\<open>orders\<close>.\<close>

definition amount_metric :: DbtMetric where
  "amount_metric = total_revenue\<lparr> DbtMetric.name := ''amount'' \<rparr>"

text \<open>
  The expression metric \<^verbatim>\<open>net\<close> with a filter, and without its expression.
\<close>

definition filtered_net :: DbtMetric where
  "filtered_net =
     net\<lparr> DbtMetric.filters :=
            Some [\<lparr> field = ''status'', operator = ''='', value = ''1'' \<rparr>] \<rparr>"

definition net_without_expression :: DbtMetric where
  "net_without_expression = net\<lparr> DbtMetric.expression := None \<rparr>"

text \<open>
  The model \<^verbatim>\<open>events\<close>: a date column, and a later column whose name is a key of an
  interval of the date column.
\<close>

definition events :: "string DbtModelNode" where
  "events =
     example_model ''events'' True
       [(''created'', created_column),
        (''created_MONTH'', example_column ''created_MONTH'' (Some (Recognised STRING)) None None)]
       None"

text \<open>The dimension that the result of \<^verbatim>\<open>convertTable\<close> holds under a key.\<close>

definition dimensionAt :: "js_error + 'pf Table \<Rightarrow> string \<Rightarrow> Dimension option" where
  "dimensionAt result k =
     (case result of Inl e \<Rightarrow> None | Inr t \<Rightarrow> obj_get (Table.dimensions t) k)"

text \<open>
  A warehouse catalog with the table of \<^verbatim>\<open>orders\<close>, and a variant of \<^verbatim>\<open>orders\<close>
  whose column \<^verbatim>\<open>amount\<close> asks for a dimension type that is not a Lightdash type.
\<close>

definition example_catalog :: WarehouseCatalog where
  "example_catalog =
     [(''warehouse'',
       [(''shop'', [(''orders'', [(''amount'', DimensionType.NUMBER), (''created'', DATE)])])])]"

text \<open>The model \<^verbatim>\<open>orders\<close> with its database written in capitals.\<close>

definition capital_orders :: "string DbtModelNode" where
  "capital_orders = orders\<lparr> DbtModelNode.database := ''WAREHOUSE'' \<rparr>"

definition integer_dimension :: DbtColumnDimensionMeta where
  "integer_dimension =
     \<lparr> DbtColumnDimensionMeta.name = None, DbtColumnDimensionMeta.label = None,
       DbtColumnDimensionMeta.type = Some (Unrecognised ''integer''),
       DbtColumnDimensionMeta.description = None, DbtColumnDimensionMeta.sql = None,
       DbtColumnDimensionMeta.time_intervals = None, DbtColumnDimensionMeta.hidden = None,
       DbtColumnDimensionMeta.round = None, DbtColumnDimensionMeta.format = None,
       DbtColumnDimensionMeta.compact = None, DbtColumnDimensionMeta.group_label = None,
       DbtColumnDimensionMeta.urls = None \<rparr>"

definition integer_amount_column :: "string DbtModelColumn" where
  "integer_amount_column = example_column ''amount'' None (Some integer_dimension) None"

definition integer_orders :: "string DbtModelNode" where
  "integer_orders = example_model ''orders'' True [(''amount'', integer_amount_column)] None"

text \<open>What the catalog makes of that column and of that model.\<close>

definition integer_amount_column_typed :: "string DbtModelColumn" where
  "integer_amount_column_typed =
     integer_amount_column\<lparr> data_type := Some (Recognised DimensionType.NUMBER) \<rparr>"

definition integer_orders_typed :: "string DbtModelNode" where
  "integer_orders_typed = integer_orders\<lparr> columns := [(''amount'', integer_amount_column_typed)] \<rparr>"

subsection \<open>Properties of objects\<close>

lemma obj_get_obj_set:
  "obj_get (obj_set obj k v) k' = (if k' = k then Some v else obj_get obj k')"
proof (cases "map_of obj k")
  case None
  then show ?thesis
    by (auto simp: obj_get_def obj_set_def map_add_def split: option.splits)
next
  case (Some w)
  have "map_of (map (\<lambda>kv. if fst kv = k then (k, v) else kv) xs) k' =
          (if k' = k then (if map_of xs k = None then None else Some v) else map_of xs k')" for xs
    by (induction xs) auto
  with Some show ?thesis
    by (simp add: obj_get_def obj_set_def)
qed

lemma keys_obj_set:
  "map fst (obj_set obj k v) = (if k \<in> set (map fst obj) then map fst obj else map fst obj @ [k])"
proof -
  have "map fst (map (\<lambda>kv. if fst kv = k then (k, v) else kv) xs) = map fst xs" for xs
    by (induction xs) auto
  then show ?thesis
    by (auto simp: obj_set_def map_of_eq_None_iff image_iff)
qed

lemma distinct_obj_set:
  "distinct (map fst obj) \<Longrightarrow> distinct (map fst (obj_set obj k v))"
  by (simp add: keys_obj_set)

lemma set_keys_obj_set:
  "fst ` set (obj_set obj k v) = insert k (fst ` set obj)"
proof -
  have "set (map fst (obj_set obj k v)) = insert k (set (map fst obj))"
    by (auto simp: keys_obj_set)
  then show ?thesis by simp
qed

lemma distinct_foldl_obj_set:
  "distinct (map fst a) \<Longrightarrow>
     distinct (map fst (foldl (\<lambda>acc kv. obj_set acc (fst kv) (snd kv)) a es))"
  by (induction es arbitrary: a) (simp_all add: distinct_obj_set)

lemma set_keys_foldl_obj_set:
  "fst ` set (foldl (\<lambda>acc kv. obj_set acc (fst kv) (snd kv)) a es) =
     fst ` set a \<union> fst ` set es"
  by (induction es arbitrary: a) (simp_all add: set_keys_obj_set)

lemma obj_get_foldl_obj_set:
  "obj_get (foldl (\<lambda>acc kv. obj_set acc (fst kv) (snd kv)) a es) k =
     (case map_of (rev es) k of None \<Rightarrow> obj_get a k | Some v \<Rightarrow> Some v)"
proof (induction es arbitrary: a)
  case Nil
  then show ?case by simp
next
  case (Cons e es)
  show ?case
    by (cases e) (auto simp: Cons.IH obj_get_obj_set map_add_def split: option.splits)
qed

lemma set_obj_entries: "set (obj_entries obj) = set obj"
  by (auto simp: obj_entries_def)

lemma set_obj_keys: "set (obj_keys obj) = fst ` set obj"
  by (simp add: obj_keys_def set_obj_entries)

lemma distinct_obj_entries:
  assumes "distinct (map fst obj)"
  shows "distinct (map fst (obj_entries obj))"
proof -
  have d: "distinct obj" and inj: "inj_on fst (set obj)"
    using assms by (simp_all add: distinct_map)
  have "distinct (obj_entries obj)"
    using d by (auto simp: obj_entries_def)
  moreover have "inj_on fst (set (obj_entries obj))"
    using inj by (simp add: set_obj_entries)
  ultimately show ?thesis by (simp add: distinct_map)
qed

lemma distinct_obj_keys: "distinct (map fst obj) \<Longrightarrow> distinct (obj_keys obj)"
  by (simp add: obj_keys_def distinct_obj_entries)

lemma map_of_obj_entries:
  assumes "distinct (map fst obj)"
  shows "map_of (obj_entries obj) = map_of obj"
    and "map_of (rev (obj_entries obj)) = map_of obj"
proof -
  have e: "distinct (map fst (obj_entries obj))"
    using assms by (rule distinct_obj_entries)
  show "map_of (obj_entries obj) = map_of obj"
    using e assms by (simp add: map_of_inject_set set_obj_entries)
  have "distinct (map fst (rev (obj_entries obj)))"
    using e by (simp add: rev_map [symmetric])
  then show "map_of (rev (obj_entries obj)) = map_of obj"
    using assms by (simp add: map_of_inject_set set_obj_entries)
qed

lemma obj_get_obj_spread:
  assumes "distinct (map fst b)"
  shows "obj_get (obj_spread a b) k = (case obj_get b k of None \<Rightarrow> obj_get a k | Some v \<Rightarrow> Some v)"
  by (simp add: obj_spread_def obj_get_foldl_obj_set map_of_obj_entries [OF assms])
     (simp add: obj_get_def)

lemma distinct_obj_spread: "distinct (map fst a) \<Longrightarrow> distinct (map fst (obj_spread a b))"
  by (simp add: obj_spread_def distinct_foldl_obj_set)

lemma distinct_obj_fromEntries: "distinct (map fst (obj_fromEntries es))"
  by (simp add: obj_fromEntries_def distinct_foldl_obj_set)

lemma set_keys_obj_spread:
  "fst ` set (obj_spread a b) = fst ` set a \<union> fst ` set b"
  by (simp add: obj_spread_def set_keys_foldl_obj_set set_obj_entries)

lemma obj_get_obj_fromEntries:
  "distinct (map fst es) \<Longrightarrow> obj_get (obj_fromEntries es) k = map_of es k"
proof -
  assume d: "distinct (map fst es)"
  then have "distinct (map fst (rev es))" by (simp add: rev_map [symmetric])
  with d have "map_of (rev es) = map_of es" by (simp add: map_of_inject_set)
  have "obj_get (obj_fromEntries es) k =
          (case map_of (rev es) k of None \<Rightarrow> obj_get [] k | Some v \<Rightarrow> Some v)"
    unfolding obj_fromEntries_def by (rule obj_get_foldl_obj_set)
  with \<open>map_of (rev es) = map_of es\<close> show ?thesis
    by (simp add: obj_get_def split: option.splits)
qed

subsection \<open>Properties of \<open>modelCanUseMetric\<close>\<close>

lemma every_modelCanUseMetric_True:
  "every_modelCanUseMetric depth rs modelName ms = Some True \<longleftrightarrow>
     (\<forall>r \<in> set rs. modelCanUseMetric depth r modelName ms = Some True)"
  by (induction rs) (auto split: option.splits bool.splits)

lemma every_modelCanUseMetric_False:
  "every_modelCanUseMetric depth rs modelName ms = Some False \<Longrightarrow>
     \<exists>r \<in> set rs. modelCanUseMetric depth r modelName ms = Some False"
  by (induction rs) (auto split: option.splits bool.splits)

lemma every_modelCanUseMetric_deeper:
  assumes step: "\<And>r c. modelCanUseMetric depth r modelName ms = Some c \<Longrightarrow>
                   modelCanUseMetric (Suc depth) r modelName ms = Some c"
    and "every_modelCanUseMetric depth rs modelName ms = Some b"
  shows "every_modelCanUseMetric (Suc depth) rs modelName ms = Some b"
  using assms(2)
proof (induction rs)
  case Nil
  then show ?case by simp
next
  case (Cons r rs)
  then obtain c where c: "modelCanUseMetric depth r modelName ms = Some c"
    by (auto split: option.splits)
  have c': "modelCanUseMetric (Suc depth) r modelName ms = Some c"
    using step [OF c] .
  show ?case
  proof (cases c)
    case True
    with Cons c have "every_modelCanUseMetric depth rs modelName ms = Some b"
      by simp
    then have "every_modelCanUseMetric (Suc depth) rs modelName ms = Some b"
      by (rule Cons.IH)
    with c' True show ?thesis
      by (simp del: modelCanUseMetric.simps)
  next
    case False
    with Cons c have "b = False" by simp
    with c' False show ?thesis
      by (simp del: modelCanUseMetric.simps)
  qed
qed

lemma modelCanUseMetric_deeper:
  "modelCanUseMetric depth metricName modelName ms = Some b \<Longrightarrow>
     modelCanUseMetric (Suc depth) metricName modelName ms = Some b"
proof (induction depth arbitrary: metricName b)
  case 0
  then show ?case by simp
next
  case (Suc depth)
  show ?case
  proof (cases "find (\<lambda>m. Some (DbtMetric.name m) = metricName) ms")
    case None
    with Suc.prems show ?thesis by simp
  next
    case (Some metric)
    show ?thesis
    proof (cases "modelRef metric \<noteq> Some modelName \<and> calculation_method metric = ''expression''")
      case False
      with Some Suc.prems show ?thesis by auto
    next
      case True
      with Some Suc.prems
      have "every_modelCanUseMetric depth (referencedMetrics metric) modelName ms = Some b"
        by simp
      then have "every_modelCanUseMetric (Suc depth) (referencedMetrics metric) modelName ms = Some b"
        by (rule every_modelCanUseMetric_deeper [rotated]) (rule Suc.IH)
      with Some True show ?thesis
        by (simp del: every_modelCanUseMetric.simps)
    qed
  qed
qed

lemma modelCanUseMetric_mono:
  "modelCanUseMetric depth metricName modelName ms = Some b \<Longrightarrow> depth \<le> k \<Longrightarrow>
     modelCanUseMetric k metricName modelName ms = Some b"
  by (induction k) (auto simp: le_Suc_eq dest: modelCanUseMetric_deeper simp del: modelCanUseMetric.simps)

lemma every_modelCanUseMetric_mono:
  "every_modelCanUseMetric depth rs modelName ms = Some b \<Longrightarrow> depth \<le> k \<Longrightarrow>
     every_modelCanUseMetric k rs modelName ms = Some b"
proof (induction k)
  case 0
  then show ?case by simp
next
  case (Suc k)
  show ?case
  proof (cases "depth = Suc k")
    case True
    with Suc.prems show ?thesis by simp
  next
    case False
    with Suc have "every_modelCanUseMetric k rs modelName ms = Some b" by simp
    then show ?thesis
      by (rule every_modelCanUseMetric_deeper [rotated]) (rule modelCanUseMetric_deeper)
  qed
qed

lemma modelCanUseMetric_common_depth:
  "(\<forall>r \<in> set rs. \<exists>d. modelCanUseMetric d r modelName ms = Some True) \<Longrightarrow>
     \<exists>D. \<forall>r \<in> set rs. modelCanUseMetric D r modelName ms = Some True"
proof (induction rs)
  case Nil
  then show ?case by simp
next
  case (Cons r rs)
  then obtain D where D: "\<forall>r \<in> set rs. modelCanUseMetric D r modelName ms = Some True"
    by auto
  from Cons.prems obtain d where d: "modelCanUseMetric d r modelName ms = Some True"
    by auto
  have "modelCanUseMetric (max d D) r modelName ms = Some True"
    using d by (rule modelCanUseMetric_mono) simp
  moreover have "\<forall>r \<in> set rs. modelCanUseMetric (max d D) r modelName ms = Some True"
    using D by (auto intro: modelCanUseMetric_mono)
  ultimately show ?case
    by (intro exI [of _ "max d D"]) simp
qed

lemma every_modelCanUseMetric_returns:
  "(\<forall>r \<in> set rs. \<exists>d b. modelCanUseMetric d r modelName ms = Some b) \<Longrightarrow>
     \<exists>D b. every_modelCanUseMetric D rs modelName ms = Some b"
proof (induction rs)
  case Nil
  have "every_modelCanUseMetric 0 [] modelName ms = Some True" by simp
  then show ?case by blast
next
  case (Cons r rs)
  then obtain D b where D: "every_modelCanUseMetric D rs modelName ms = Some b"
    by auto
  from Cons.prems obtain d c where d: "modelCanUseMetric d r modelName ms = Some c"
    by auto
  have 1: "modelCanUseMetric (max d D) r modelName ms = Some c"
    using d by (rule modelCanUseMetric_mono) simp
  have 2: "every_modelCanUseMetric (max d D) rs modelName ms = Some b"
    using D by (rule every_modelCanUseMetric_mono) simp
  show ?case
  proof (cases c)
    case True
    with 1 2 have "every_modelCanUseMetric (max d D) (r # rs) modelName ms = Some b"
      by (simp del: modelCanUseMetric.simps)
    then show ?thesis by blast
  next
    case False
    with 1 have "every_modelCanUseMetric (max d D) (r # rs) modelName ms = Some False"
      by (simp del: modelCanUseMetric.simps)
    then show ?thesis by blast
  qed
qed

lemma metricReferences_member:
  assumes "metric \<in> set ms" "calculation_method metric = ''expression''"
    "r \<in> set (referencedMetrics metric)"
  shows "(Some (DbtMetric.name metric), r) \<in> set (metricReferences ms)"
  using assms by (auto simp: metricReferences_def)

text \<open>
  Claim C9. When the reference relation of the expression metrics of a list has no cycle,
  \<^verbatim>\<open>modelCanUseMetric\<close> returns for every metric name and every model name: some depth
  of calls is enough, and with that depth or more the call returns the same value.
\<close>

theorem modelCanUseMetric_terminates:
  assumes "acyclic (set (metricReferences ms))"
  shows "\<exists>d b. \<forall>k \<ge> d. modelCanUseMetric k metricName modelName ms = Some b"
proof -
  have "wf ((set (metricReferences ms))\<inverse>)"
    using assms by (intro finite_acyclic_wf_converse) simp_all
  then have "\<exists>d b. modelCanUseMetric d metricName modelName ms = Some b"
  proof (induction metricName rule: wf_induct_rule)
    case (less x)
    show ?case
    proof (cases "find (\<lambda>m. Some (DbtMetric.name m) = x) ms")
      case None
      then have "modelCanUseMetric (Suc 0) x modelName ms = Some False" by simp
      then show ?thesis by blast
    next
      case (Some metric)
      then have mem: "metric \<in> set ms" and nm: "Some (DbtMetric.name metric) = x"
        by (auto simp: find_Some_iff)
      show ?thesis
      proof (cases "modelRef metric \<noteq> Some modelName \<and> calculation_method metric = ''expression''")
        case False
        with Some have "\<exists>b. modelCanUseMetric (Suc 0) x modelName ms = Some b" by auto
        then show ?thesis by blast
      next
        case True
        have "\<forall>r \<in> set (referencedMetrics metric). \<exists>d b. modelCanUseMetric d r modelName ms = Some b"
        proof
          fix r assume "r \<in> set (referencedMetrics metric)"
          with mem True have "(Some (DbtMetric.name metric), r) \<in> set (metricReferences ms)"
            by (intro metricReferences_member) simp_all
          with nm have "(r, x) \<in> (set (metricReferences ms))\<inverse>" by simp
          then show "\<exists>d b. modelCanUseMetric d r modelName ms = Some b"
            by (rule less.IH)
        qed
        then obtain D b where
          "every_modelCanUseMetric D (referencedMetrics metric) modelName ms = Some b"
          using every_modelCanUseMetric_returns by blast
        with Some True have "modelCanUseMetric (Suc D) x modelName ms = Some b"
          by simp
        then show ?thesis by blast
      qed
    qed
  qed
  then obtain d b where "modelCanUseMetric d metricName modelName ms = Some b"
    by blast
  then have "\<forall>k \<ge> d. modelCanUseMetric k metricName modelName ms = Some b"
    by (auto intro: modelCanUseMetric_mono)
  then show ?thesis by blast
qed

lemma example_references:
  "metricReferences example_metrics =
     [(Some ''net'', Some ''total_revenue''), (Some ''net'', Some ''total_cost'')]"
  by (simp add: metricReferences_def example_metrics_def total_revenue_def total_cost_def net_def
      referencedMetrics_def first_elem_def)

lemma example_references_acyclic: "acyclic (set (metricReferences example_metrics))"
proof -
  have "set (metricReferences example_metrics) \<subseteq>
          measure (\<lambda>n. if n = Some ''net'' then 0 else Suc 0)"
    by (simp add: example_references)
  then have "wf (set (metricReferences example_metrics))"
    by (rule wf_subset [OF wf_measure])
  then show ?thesis by (rule wf_acyclic)
qed

theorem modelCanUseMetric_terminates_witness:
  "acyclic (set (metricReferences example_metrics)) \<and>
   (\<exists>d b. \<forall>k \<ge> d. modelCanUseMetric k (Some ''net'') ''orders'' example_metrics = Some b)"
  using example_references_acyclic
    modelCanUseMetric_terminates [OF example_references_acyclic, of "Some ''net''" "''orders''"]
  by blast

text \<open>
  Without the precondition the call need not return: a metric that refers to itself uses
  up every depth.
\<close>

lemma modelCanUseMetric_self_reference:
  "modelCanUseMetric k (Some ''ratio'') ''orders'' [self_referring] = None"
  by (induction k)
     (simp_all add: self_referring_def referencedMetrics_def first_elem_def modelRef_def)

text \<open>
  Claim C5. For a metric name that the list holds, where \<open>metric\<close> is the metric that
  \<^verbatim>\<open>find\<close> gives for it: the call returns true (at some depth) exactly when the first
  model reference of the metric is the model name, or the metric is an expression metric
  and the call returns true for every metric that it refers to. A metric that is not an
  expression metric and whose first reference is another model makes every call return
  false.
\<close>

theorem modelCanUseMetric_usable_iff:
  assumes "find (\<lambda>m. DbtMetric.name m = metricName) ms = Some metric"
  shows "((\<exists>d. modelCanUseMetric d (Some metricName) modelName ms = Some True) \<longleftrightarrow>
            modelRef metric = Some modelName \<or>
            (calculation_method metric = ''expression'' \<and>
             (\<forall>r \<in> set (referencedMetrics metric).
                 \<exists>d. modelCanUseMetric d r modelName ms = Some True))) \<and>
         (calculation_method metric \<noteq> ''expression'' \<and> modelRef metric \<noteq> Some modelName \<longrightarrow>
            (\<forall>d. modelCanUseMetric (Suc d) (Some metricName) modelName ms = Some False))"
proof -
  have f: "find (\<lambda>m. Some (DbtMetric.name m) = Some metricName) ms = Some metric"
    using assms by simp
  have unfold: "\<And>d. modelCanUseMetric (Suc d) (Some metricName) modelName ms =
      (if modelRef metric = Some modelName then Some True
       else if calculation_method metric = ''expression''
       then every_modelCanUseMetric d (referencedMetrics metric) modelName ms
       else Some False)"
    using f by simp
  let ?rhs = "modelRef metric = Some modelName \<or>
            (calculation_method metric = ''expression'' \<and>
             (\<forall>r \<in> set (referencedMetrics metric).
                 \<exists>d. modelCanUseMetric d r modelName ms = Some True))"
  have "?rhs" if "modelCanUseMetric d (Some metricName) modelName ms = Some True" for d
  proof (cases d)
    case 0
    with that show ?thesis by simp
  next
    case (Suc d')
    show ?thesis
    proof (cases "modelRef metric \<noteq> Some modelName \<and> calculation_method metric = ''expression''")
      case True
      with that Suc unfold [of d']
      have "every_modelCanUseMetric d' (referencedMetrics metric) modelName ms = Some True"
        by simp
      then have "\<forall>r \<in> set (referencedMetrics metric).
                   modelCanUseMetric d' r modelName ms = Some True"
        by (simp only: every_modelCanUseMetric_True)
      with True show ?thesis by blast
    next
      case False
      with that Suc unfold [of d'] show ?thesis
        by (auto split: if_splits)
    qed
  qed
  moreover have "\<exists>d. modelCanUseMetric d (Some metricName) modelName ms = Some True" if "?rhs"
  proof (cases "modelRef metric = Some modelName")
    case True
    with unfold [of 0] show ?thesis by metis
  next
    case False
    with that obtain D where
      "\<forall>r \<in> set (referencedMetrics metric). modelCanUseMetric D r modelName ms = Some True"
      and e: "calculation_method metric = ''expression''"
      using modelCanUseMetric_common_depth by blast
    then have "every_modelCanUseMetric D (referencedMetrics metric) modelName ms = Some True"
      by (simp add: every_modelCanUseMetric_True)
    with False e unfold [of D] show ?thesis by metis
  qed
  ultimately show ?thesis
    using unfold by auto
qed

lemma example_find_net: "find (\<lambda>m. DbtMetric.name m = ''net'') example_metrics = Some net"
  by (simp add: example_metrics_def total_revenue_def total_cost_def net_def)

lemma example_find_total_revenue:
  "find (\<lambda>m. DbtMetric.name m = ''total_revenue'') example_metrics = Some total_revenue"
  by (simp add: example_metrics_def total_revenue_def)

theorem modelCanUseMetric_usable_iff_witness:
  "find (\<lambda>m. DbtMetric.name m = ''net'') example_metrics = Some net \<and>
   modelRef net \<noteq> Some ''orders'' \<and> calculation_method net = ''expression'' \<and>
   (\<exists>d. modelCanUseMetric d (Some ''net'') ''orders'' example_metrics = Some True) \<and>
   referencedMetrics net = [Some ''total_revenue'', Some ''total_cost''] \<and>
   (\<exists>d. modelCanUseMetric d (Some ''total_revenue'') ''orders'' example_metrics = Some True) \<and>
   (\<exists>d. modelCanUseMetric d (Some ''total_cost'') ''orders'' example_metrics = Some True) \<and>
   find (\<lambda>m. DbtMetric.name m = ''total_revenue'') example_metrics = Some total_revenue \<and>
   calculation_method total_revenue \<noteq> ''expression'' \<and>
   modelRef total_revenue \<noteq> Some ''customers'' \<and>
   (\<forall>d. modelCanUseMetric (Suc d) (Some ''total_revenue'') ''customers'' example_metrics =
          Some False)"
proof -
  have 1: "modelCanUseMetric 2 (Some ''net'') ''orders'' example_metrics = Some True"
    by (simp add: numeral_2_eq_2 example_metrics_def total_revenue_def total_cost_def net_def
        referencedMetrics_def first_elem_def modelRef_def)
  then have 2: "\<exists>d. modelCanUseMetric d (Some ''net'') ''orders'' example_metrics = Some True"
    by blast
  have 3: "modelRef net \<noteq> Some ''orders''" "calculation_method net = ''expression''"
    by (simp_all add: net_def modelRef_def first_elem_def)
  have 4: "calculation_method total_revenue \<noteq> ''expression''"
    "modelRef total_revenue \<noteq> Some ''customers''"
    by (simp_all add: total_revenue_def modelRef_def first_elem_def)
  have 5: "referencedMetrics net = [Some ''total_revenue'', Some ''total_cost'']"
    by (simp add: net_def referencedMetrics_def first_elem_def)
  have 6: "\<forall>r \<in> set (referencedMetrics net).
             \<exists>d. modelCanUseMetric d r ''orders'' example_metrics = Some True"
    using 2 3 modelCanUseMetric_usable_iff [OF example_find_net, of "''orders''"] by blast
  have 7: "\<forall>d. modelCanUseMetric (Suc d) (Some ''total_revenue'') ''customers'' example_metrics =
             Some False"
    using 4 modelCanUseMetric_usable_iff [OF example_find_total_revenue, of "''customers''"]
    by blast
  from 6 have 8:
    "\<exists>d. modelCanUseMetric d (Some ''total_revenue'') ''orders'' example_metrics = Some True"
    "\<exists>d. modelCanUseMetric d (Some ''total_cost'') ''orders'' example_metrics = Some True"
    by (simp_all add: 5 del: modelCanUseMetric.simps)
  show ?thesis
    using example_find_net example_find_total_revenue 2 3 4 5 7 8 by blast
qed

subsection \<open>Properties of \<open>convertDbtMetricToLightdashMetric\<close>\<close>

lemma foldl_replaceReference:
  "foldl replaceReference s (map Some names) = substituteReferences s names"
  unfolding substituteReferences_def
  by (induction names arbitrary: s) (simp_all add: replaceReference_def)

text \<open>
  Claim C4, as amended. For a dbt metric with the calculation method \<^verbatim>\<open>expression\<close>:
  when its expression is not empty, every entry of \<^verbatim>\<open>metrics\<close> has a first element, and
  these names are identifiers that are not empty, the conversion returns a metric of type
  \<^verbatim>\<open>NUMBER\<close> whose SQL is the expression after the substitution of the names in order;
  when the metric has filters, that text stands inside the \<^verbatim>\<open>CASE WHEN\<close> guard of the
  filters. Without an expression the conversion throws a \<^verbatim>\<open>ParseError\<close>.
\<close>

theorem convertDbtMetricToLightdashMetric_expression:
  assumes "calculation_method metric = ''expression''"
  shows "(\<forall>e names.
            expression metric = Some e \<and> e \<noteq> [] \<and>
            referencedMetrics metric = map Some names \<and> list_all plainPattern names \<longrightarrow>
            (\<exists>m. convertDbtMetricToLightdashMetric env metric tableName tlabel = Inr m \<and>
                 Metric.type m = NUMBER \<and>
                 Metric.sql m =
                   (case DbtMetric.filters metric of
                      None \<Rightarrow> substituteReferences e names
                    | Some fs \<Rightarrow>
                        if fs = [] then substituteReferences e names
                        else ''CASE WHEN '' @ filterSql fs @ '' THEN '' @
                             substituteReferences e names @ '' ELSE NULL END''))) \<and>
         (expression metric = None \<or> expression metric = Some [] \<longrightarrow>
            (\<exists>msg. convertDbtMetricToLightdashMetric env metric tableName tlabel =
                     Inl (ParseError msg)))"
proof (intro conjI allI impI)
  fix e names
  assume a: "expression metric = Some e \<and> e \<noteq> [] \<and>
            referencedMetrics metric = map Some names \<and> list_all plainPattern names"
  then have "metricTypeAndSql env metric = Inr (NUMBER, substituteReferences e names)"
    using assms by (simp add: metricTypeAndSql_def truthy_def or_str_def foldl_replaceReference)
  then show "\<exists>m. convertDbtMetricToLightdashMetric env metric tableName tlabel = Inr m \<and>
                 Metric.type m = NUMBER \<and>
                 Metric.sql m =
                   (case DbtMetric.filters metric of
                      None \<Rightarrow> substituteReferences e names
                    | Some fs \<Rightarrow>
                        if fs = [] then substituteReferences e names
                        else ''CASE WHEN '' @ filterSql fs @ '' THEN '' @
                             substituteReferences e names @ '' ELSE NULL END'')"
    by (simp add: convertDbtMetricToLightdashMetric_def split: option.splits)
next
  assume "expression metric = None \<or> expression metric = Some []"
  then have "\<not> truthy (expression metric)"
    by (auto simp: truthy_def)
  then have \<open>metricTypeAndSql env metric =
               Inl (ParseError (''dbt expression metric "'' @ DbtMetric.name metric @
                                ''" must have the sql field set''))\<close>
    using assms by (simp add: metricTypeAndSql_def)
  then have "\<exists>msg. metricTypeAndSql env metric = Inl (ParseError msg)"
    by (rule exI)
  then show "\<exists>msg. convertDbtMetricToLightdashMetric env metric tableName tlabel =
                     Inl (ParseError msg)"
    by (auto simp: convertDbtMetricToLightdashMetric_def)
qed

text \<open>
  The claim as stated fails for an expression metric with a filter: its SQL is not the
  substituted expression.
\<close>

theorem convertDbtMetricToLightdashMetric_expression_counterexample:
  "calculation_method filtered_net = ''expression'' \<and>
   expression filtered_net = Some ''total_revenue - total_cost'' \<and>
   DbtMetric.metrics filtered_net = Some [[''total_revenue''], [''total_cost'']] \<and>
   substituteReferences ''total_revenue - total_cost'' [''total_revenue'', ''total_cost''] =
     ''${total_revenue} - ${total_cost}'' \<and>
   map_sum js_error.name Metric.sql
     (convertDbtMetricToLightdashMetric example_env filtered_net ''orders'' ''orders'') =
     Inr ''CASE WHEN (${TABLE}.status = 1) THEN ${total_revenue} - ${total_cost} ELSE NULL END''"
  by code_simp

lemma net_facts:
  "calculation_method net = ''expression''"
  "expression net = Some ''total_revenue - total_cost''"
  "referencedMetrics net = map Some [''total_revenue'', ''total_cost'']"
  "list_all plainPattern [''total_revenue'', ''total_cost'']"
  "DbtMetric.filters net = None"
  by code_simp+

lemma filtered_net_facts:
  "calculation_method filtered_net = ''expression''"
  "expression filtered_net = Some ''total_revenue - total_cost''"
  "referencedMetrics filtered_net = map Some [''total_revenue'', ''total_cost'']"
  "DbtMetric.filters filtered_net = Some [\<lparr> field = ''status'', operator = ''='', value = ''1'' \<rparr>]"
  by code_simp+

lemma net_without_expression_facts:
  "calculation_method net_without_expression = ''expression''"
  "expression net_without_expression = None"
  by code_simp+

lemma example_substitution:
  "substituteReferences ''total_revenue - total_cost'' [''total_revenue'', ''total_cost''] =
     ''${total_revenue} - ${total_cost}''"
  by code_simp

theorem convertDbtMetricToLightdashMetric_expression_witness:
  "calculation_method net = ''expression'' \<and>
   expression net = Some ''total_revenue - total_cost'' \<and>
   referencedMetrics net = map Some [''total_revenue'', ''total_cost''] \<and>
   list_all plainPattern [''total_revenue'', ''total_cost''] \<and>
   DbtMetric.filters net = None \<and>
   (\<exists>m. convertDbtMetricToLightdashMetric example_env net ''orders'' ''orders'' = Inr m \<and>
        Metric.type m = NUMBER \<and> Metric.sql m = ''${total_revenue} - ${total_cost}'') \<and>
   DbtMetric.filters filtered_net = Some [\<lparr> field = ''status'', operator = ''='', value = ''1'' \<rparr>] \<and>
   (\<exists>m. convertDbtMetricToLightdashMetric example_env filtered_net ''orders'' ''orders'' = Inr m \<and>
        Metric.type m = NUMBER \<and>
        Metric.sql m =
          ''CASE WHEN (${TABLE}.status = 1) THEN ${total_revenue} - ${total_cost} ELSE NULL END'') \<and>
   calculation_method net_without_expression = ''expression'' \<and>
   expression net_without_expression = None \<and>
   (\<exists>msg. convertDbtMetricToLightdashMetric example_env net_without_expression ''orders'' ''orders'' =
            Inl (ParseError msg))"
proof -
  have 1: "\<exists>m. convertDbtMetricToLightdashMetric example_env net ''orders'' ''orders'' = Inr m \<and>
        Metric.type m = NUMBER \<and> Metric.sql m = ''${total_revenue} - ${total_cost}''"
    using convertDbtMetricToLightdashMetric_expression [OF net_facts(1), THEN conjunct1,
        rule_format, of "''total_revenue - total_cost''" "[''total_revenue'', ''total_cost'']"
        example_env "''orders''" "''orders''"] net_facts(2-5)
    by (simp add: example_substitution)
  have f: "filterSql [\<lparr> field = ''status'', operator = ''='', value = ''1'' \<rparr>] =
             ''(${TABLE}.status = 1)''"
    by code_simp
  have 2: "\<exists>m. convertDbtMetricToLightdashMetric example_env filtered_net ''orders'' ''orders'' = Inr m \<and>
        Metric.type m = NUMBER \<and>
        Metric.sql m =
          ''CASE WHEN (${TABLE}.status = 1) THEN ${total_revenue} - ${total_cost} ELSE NULL END''"
    using convertDbtMetricToLightdashMetric_expression [OF filtered_net_facts(1), THEN conjunct1,
        rule_format, of "''total_revenue - total_cost''" "[''total_revenue'', ''total_cost'']"
        example_env "''orders''" "''orders''"] filtered_net_facts(2-4) net_facts(4)
    by (simp add: example_substitution f)
  have 3: "\<exists>msg. convertDbtMetricToLightdashMetric example_env net_without_expression ''orders'' ''orders'' =
            Inl (ParseError msg)"
    using convertDbtMetricToLightdashMetric_expression [OF net_without_expression_facts(1),
        of example_env "''orders''" "''orders''"] net_without_expression_facts(2)
    by simp
  show ?thesis
    using net_facts filtered_net_facts(4) net_without_expression_facts 1 2 3
    by (intro conjI) assumption+
qed

subsection \<open>Properties of \<open>convertTable\<close>\<close>

lemma convertColumn_distinct:
  assumes "convertColumn env adapterType model tlabel prev column = Inr acc"
    and "distinct (map fst (fst prev))" "distinct (map fst (snd prev))"
  shows "distinct (map fst (fst acc)) \<and> distinct (map fst (snd acc))"
  using assms
  by (auto simp: convertColumn_def distinct_obj_spread distinct_obj_set
      split: sum.splits if_splits)

lemma columnsReduce_distinct:
  assumes "columnsReduce env adapterType model tlabel prev cs = Inr res"
    and "distinct (map fst (fst prev))" "distinct (map fst (snd prev))"
  shows "distinct (map fst (fst res)) \<and> distinct (map fst (snd res))"
  using assms
proof (induction cs arbitrary: prev)
  case Nil
  then show ?case by simp
next
  case (Cons c cs)
  from Cons.prems(1) obtain acc where
    n: "convertColumn env adapterType model tlabel prev c = Inr acc"
    and r: "columnsReduce env adapterType model tlabel acc cs = Inr res"
    by (auto split: sum.splits)
  from convertColumn_distinct [OF n Cons.prems(2,3)] Cons.IH [OF r] show ?case
    by blast
qed

lemma convertTable_Inr:
  assumes "convertTable env adapterType model dbtMetrics = Inr t"
  shows "\<exists>d m c. compiled model \<and>
           columnsReduce env adapterType model (modelLabel env model) ([], [])
             (obj_values (columns model)) = Inr (d, m) \<and>
           convertedDbtMetricEntries env (DbtModelNode.name model) (modelLabel env model)
             dbtMetrics = Inr c \<and>
           duplicatedNames (allMetrics c m) d = [] \<and>
           truthy (relation_name model) \<and>
           Table.dimensions t = d \<and> Table.metrics t = allMetrics c m \<and>
           Table.name t = DbtModelNode.name model"
  using assms
  by (auto simp: convertTable_def split: if_splits sum.splits prod.splits)

lemma convertedDbtMetricEntries_names:
  "convertedDbtMetricEntries env tableName tlabel dbtMetrics = Inr c \<Longrightarrow>
     map fst c = map DbtMetric.name dbtMetrics"
  by (induction dbtMetrics arbitrary: c) (auto split: sum.splits)

lemma obj_get_allMetrics:
  assumes "distinct (map fst m)"
  shows "obj_get (allMetrics c m) n =
           (case obj_get m n of None \<Rightarrow> obj_get (obj_fromEntries c) n | Some em \<Rightarrow> Some em)"
  unfolding allMetrics_def by (rule obj_get_obj_spread [OF assms])

text \<open>
  Claim C6. In the table that \<^verbatim>\<open>convertTable\<close> returns, the metric map is the converted
  dbt metrics (one entry for the name of every dbt metric) spread first and the metrics of
  the columns spread over them: a name that a column metric has maps to the column metric,
  whether or not a dbt metric has that name too, and every other name maps to what the
  converted dbt metrics give it.
\<close>

theorem convertTable_column_metric_wins:
  assumes "convertTable env adapterType model dbtMetrics = Inr t"
    and "columnsReduce env adapterType model (modelLabel env model) ([], [])
           (obj_values (columns model)) = Inr (dimensions', metrics')"
    and "convertedDbtMetricEntries env (DbtModelNode.name model) (modelLabel env model)
           dbtMetrics = Inr convertedEntries"
  shows "map fst convertedEntries = map DbtMetric.name dbtMetrics \<and>
         Table.metrics t = obj_spread (obj_fromEntries convertedEntries) metrics' \<and>
         (\<forall>embedded. obj_get metrics' n = Some embedded \<longrightarrow>
            obj_get (Table.metrics t) n = Some embedded) \<and>
         (obj_get metrics' n = None \<longrightarrow>
            obj_get (Table.metrics t) n = obj_get (obj_fromEntries convertedEntries) n)"
proof -
  from convertTable_Inr [OF assms(1)] assms(2,3)
  have m: "Table.metrics t = allMetrics convertedEntries metrics'"
    by auto
  have "distinct (map fst (snd (dimensions', metrics')))"
    using columnsReduce_distinct [OF assms(2)] by simp
  then have d: "distinct (map fst metrics')" by simp
  show ?thesis
    using convertedDbtMetricEntries_names [OF assms(3)] m obj_get_allMetrics [OF d, of convertedEntries n]
    by (auto simp: allMetrics_def)
qed

lemma distinct_duplicatedNames:
  "distinct (map fst m) \<Longrightarrow> distinct (duplicatedNames (allMetrics c m) d)"
  by (simp add: duplicatedNames_def allMetrics_def distinct_obj_keys distinct_obj_spread
      distinct_obj_fromEntries)

lemma set_duplicatedNames:
  "set (duplicatedNames am d) = set (obj_keys am) \<inter> set (obj_keys d)"
  by (auto simp: duplicatedNames_def)

text \<open>
  Claim C3. For a compiled model whose columns and dbt metrics convert: when a key of the
  merged metric map is a key of the dimension map as well, \<^verbatim>\<open>convertTable\<close> throws a
  \<^verbatim>\<open>ParseError\<close> whose message is the prefix for several names when there is more than
  one, the prefix for a single name otherwise, followed by every colliding name once;
  when no key collides, the only error \<^verbatim>\<open>convertTable\<close> can still throw is the one for
  a missing table relation.
\<close>

theorem convertTable_duplicated_names:
  assumes "compiled model"
    and "columnsReduce env adapterType model (modelLabel env model) ([], [])
           (obj_values (columns model)) = Inr (dimensions', metrics')"
    and "convertedDbtMetricEntries env (DbtModelNode.name model) (modelLabel env model)
           dbtMetrics = Inr convertedEntries"
  shows "(set (obj_keys (allMetrics convertedEntries metrics')) \<inter> set (obj_keys dimensions') \<noteq> {} \<longrightarrow>
           (\<exists>names.
              convertTable env adapterType model dbtMetrics =
                Inl (ParseError
                       ((if length names > 1
                         then ''Found multiple metrics and a dimensions with the same name:''
                         else ''Found a metric and a dimension with the same name:'') @
                        '' '' @ joinWith '','' names)) \<and>
              distinct names \<and>
              set names =
                set (obj_keys (allMetrics convertedEntries metrics')) \<inter> set (obj_keys dimensions'))) \<and>
         (set (obj_keys (allMetrics convertedEntries metrics')) \<inter> set (obj_keys dimensions') = {} \<longrightarrow>
           (\<forall>e. convertTable env adapterType model dbtMetrics = Inl e \<longrightarrow>
                e = Error ''Model has no table relation''))"
proof -
  let ?names = "duplicatedNames (allMetrics convertedEntries metrics') dimensions'"
  have d: "distinct ?names"
    using columnsReduce_distinct [OF assms(2)] by (simp add: distinct_duplicatedNames)
  have s: "set ?names =
             set (obj_keys (allMetrics convertedEntries metrics')) \<inter> set (obj_keys dimensions')"
    by (rule set_duplicatedNames)
  have c: "convertTable env adapterType model dbtMetrics =
             (if length ?names > 0 then Inl (duplicatedNamesError ?names)
              else if \<not> truthy (relation_name model) then Inl (Error ''Model has no table relation'')
              else Inr \<lparr> Table.name = DbtModelNode.name model,
                         label = modelLabel env model,
                         database = DbtModelNode.database model,
                         schema = DbtModelNode.schema model,
                         sqlTable = or_str (relation_name model) [],
                         description = or_str (DbtModelNode.description model)
                                         (DbtModelNode.name model @ '' table''),
                         dimensions = dimensions',
                         metrics = allMetrics convertedEntries metrics',
                         lineageGraph = None \<rparr>)"
    using assms by (simp add: convertTable_def)
  show ?thesis
  proof (intro conjI impI allI)
    assume "set (obj_keys (allMetrics convertedEntries metrics')) \<inter> set (obj_keys dimensions') \<noteq> {}"
    with s have "?names \<noteq> []" by auto
    with c have "convertTable env adapterType model dbtMetrics = Inl (duplicatedNamesError ?names)"
      by simp
    with d s show "\<exists>names.
              convertTable env adapterType model dbtMetrics =
                Inl (ParseError
                       ((if length names > 1
                         then ''Found multiple metrics and a dimensions with the same name:''
                         else ''Found a metric and a dimension with the same name:'') @
                        '' '' @ joinWith '','' names)) \<and>
              distinct names \<and>
              set names =
                set (obj_keys (allMetrics convertedEntries metrics')) \<inter> set (obj_keys dimensions')"
      unfolding duplicatedNamesError_def by (intro exI [of _ ?names]) simp
  next
    fix e
    assume "set (obj_keys (allMetrics convertedEntries metrics')) \<inter> set (obj_keys dimensions') = {}"
      and e: "convertTable env adapterType model dbtMetrics = Inl e"
    with s have "?names = []" by auto
    with c e show "e = Error ''Model has no table relation''"
      by (auto split: if_splits)
  qed
qed

lemma orders_columns:
  "\<exists>d m. columnsReduce example_env POSTGRES orders (modelLabel example_env orders) ([], [])
            (obj_values (columns orders)) = Inr (d, m) \<and>
          obj_keys d = [''amount'', ''created'', ''created_DAY'', ''created_MONTH''] \<and>
          map_option Metric.type (obj_get m ''total_revenue'') = Some (Aggregation ''max'') \<and>
          obj_keys m = [''total_revenue'']"
proof -
  have "case columnsReduce example_env POSTGRES orders (modelLabel example_env orders) ([], [])
            (obj_values (columns orders)) of
          Inl e \<Rightarrow> False
        | Inr dm \<Rightarrow> obj_keys (fst dm) = [''amount'', ''created'', ''created_DAY'', ''created_MONTH''] \<and>
            map_option Metric.type (obj_get (snd dm) ''total_revenue'') = Some (Aggregation ''max'') \<and>
            obj_keys (snd dm) = [''total_revenue'']"
    by code_simp
  then show ?thesis
    by (auto split: sum.splits)
qed

lemma orders_converted:
  "\<exists>c. convertedDbtMetricEntries example_env (DbtModelNode.name orders)
          (modelLabel example_env orders) [total_revenue] = Inr c \<and>
        map_option Metric.type (obj_get (obj_fromEntries c) ''total_revenue'') = Some (Aggregation ''sum'')"
proof -
  have "case convertedDbtMetricEntries example_env (DbtModelNode.name orders)
          (modelLabel example_env orders) [total_revenue] of
          Inl e \<Rightarrow> False
        | Inr c \<Rightarrow> map_option Metric.type (obj_get (obj_fromEntries c) ''total_revenue'') = Some (Aggregation ''sum'')"
    by code_simp
  then show ?thesis
    by (auto split: sum.splits)
qed

lemma orders_table: "\<exists>t. convertTable example_env POSTGRES orders [total_revenue] = Inr t"
proof -
  have "\<not> isl (convertTable example_env POSTGRES orders [total_revenue])"
    by code_simp
  then show ?thesis
    by (cases "convertTable example_env POSTGRES orders [total_revenue]") auto
qed

lemma orders_converted_both:
  "\<exists>c. convertedDbtMetricEntries example_env (DbtModelNode.name orders)
          (modelLabel example_env orders) [total_revenue, total_cost] = Inr c \<and>
        map_option Metric.type (obj_get (obj_fromEntries c) ''total_revenue'') =
          Some (Aggregation ''sum'') \<and>
        map_option Metric.type (obj_get (obj_fromEntries c) ''total_cost'') =
          Some (Aggregation ''sum'')"
proof -
  have "case convertedDbtMetricEntries example_env (DbtModelNode.name orders)
          (modelLabel example_env orders) [total_revenue, total_cost] of
          Inl e \<Rightarrow> False
        | Inr c \<Rightarrow>
            map_option Metric.type (obj_get (obj_fromEntries c) ''total_revenue'') =
              Some (Aggregation ''sum'') \<and>
            map_option Metric.type (obj_get (obj_fromEntries c) ''total_cost'') =
              Some (Aggregation ''sum'')"
    by code_simp
  then show ?thesis
    by (auto split: sum.splits)
qed

lemma orders_table_both:
  "\<exists>t. convertTable example_env POSTGRES orders [total_revenue, total_cost] = Inr t"
proof -
  have "\<not> isl (convertTable example_env POSTGRES orders [total_revenue, total_cost])"
    by code_simp
  then show ?thesis
    by (cases "convertTable example_env POSTGRES orders [total_revenue, total_cost]") auto
qed

lemma orders_no_total_cost_column_metric:
  "case columnsReduce example_env POSTGRES orders (modelLabel example_env orders) ([], [])
          (obj_values (columns orders)) of
     Inl e \<Rightarrow> False
   | Inr dm \<Rightarrow> obj_get (snd dm) ''total_cost'' = None"
  by code_simp

theorem convertTable_column_metric_wins_witness:
  "\<exists>t d m c.
     convertTable example_env POSTGRES orders [total_revenue, total_cost] = Inr t \<and>
     columnsReduce example_env POSTGRES orders (modelLabel example_env orders) ([], [])
       (obj_values (columns orders)) = Inr (d, m) \<and>
     convertedDbtMetricEntries example_env (DbtModelNode.name orders)
       (modelLabel example_env orders) [total_revenue, total_cost] = Inr c \<and>
     map fst c = [''total_revenue'', ''total_cost''] \<and>
     map_option Metric.type (obj_get (obj_fromEntries c) ''total_revenue'') =
       Some (Aggregation ''sum'') \<and>
     map_option Metric.type (obj_get m ''total_revenue'') = Some (Aggregation ''max'') \<and>
     map_option Metric.type (obj_get (Table.metrics t) ''total_revenue'') =
       Some (Aggregation ''max'') \<and>
     obj_get m ''total_cost'' = None \<and>
     map_option Metric.type (obj_get (Table.metrics t) ''total_cost'') =
       Some (Aggregation ''sum'')"
proof -
  from orders_table_both obtain t where
    t: "convertTable example_env POSTGRES orders [total_revenue, total_cost] = Inr t"
    by (elim exE)
  from orders_columns obtain d m where
    dm: "columnsReduce example_env POSTGRES orders (modelLabel example_env orders) ([], [])
           (obj_values (columns orders)) = Inr (d, m)"
    and m: "map_option Metric.type (obj_get m ''total_revenue'') = Some (Aggregation ''max'')"
    by (elim exE conjE)
  from orders_no_total_cost_column_metric dm have m2: "obj_get m ''total_cost'' = None"
    by simp
  from orders_converted_both obtain c where
    c: "convertedDbtMetricEntries example_env (DbtModelNode.name orders)
          (modelLabel example_env orders) [total_revenue, total_cost] = Inr c"
    and c1: "map_option Metric.type (obj_get (obj_fromEntries c) ''total_revenue'') =
               Some (Aggregation ''sum'')"
    and c2: "map_option Metric.type (obj_get (obj_fromEntries c) ''total_cost'') =
               Some (Aggregation ''sum'')"
    by (elim exE conjE)
  from m obtain embedded where e: "obj_get m ''total_revenue'' = Some embedded"
    by auto
  have n: "DbtMetric.name total_revenue = ''total_revenue''"
    "DbtMetric.name total_cost = ''total_cost''"
    by (simp_all add: total_revenue_def total_cost_def)
  note w1 = convertTable_column_metric_wins [OF t dm c, of "''total_revenue''"]
  note w2 = convertTable_column_metric_wins [OF t dm c, of "''total_cost''"]
  have k: "map fst c = [''total_revenue'', ''total_cost'']"
    using w1 n by simp
  have g1: "obj_get (Table.metrics t) ''total_revenue'' = Some embedded"
    using w1 e by blast
  have g2: "obj_get (Table.metrics t) ''total_cost'' = obj_get (obj_fromEntries c) ''total_cost''"
    using w2 m2 by blast
  have r1: "map_option Metric.type (obj_get (Table.metrics t) ''total_revenue'') =
              Some (Aggregation ''max'')"
    using g1 e m by simp
  have r2: "map_option Metric.type (obj_get (Table.metrics t) ''total_cost'') =
              Some (Aggregation ''sum'')"
    using g2 c2 by simp
  from t dm c k c1 m r1 m2 r2 show ?thesis
    by (intro exI [of _ t] exI [of _ d] exI [of _ m] exI [of _ c] conjI)
qed

lemma orders_converted_amount:
  "\<exists>c. convertedDbtMetricEntries example_env (DbtModelNode.name orders)
          (modelLabel example_env orders) [amount_metric] = Inr c \<and> map fst c = [''amount'']"
proof -
  have "case convertedDbtMetricEntries example_env (DbtModelNode.name orders)
          (modelLabel example_env orders) [amount_metric] of
          Inl e \<Rightarrow> False
        | Inr c \<Rightarrow> map fst c = [''amount'']"
    by code_simp
  then show ?thesis
    by (auto split: sum.splits)
qed


lemma set_keys_obj_fromEntries: "fst ` set (obj_fromEntries es) = fst ` set es"
  by (simp add: obj_fromEntries_def set_keys_foldl_obj_set)

lemma set_obj_keys_allMetrics:
  "set (obj_keys (allMetrics c m)) = set (map fst c) \<union> set (obj_keys m)"
  by (simp add: set_obj_keys allMetrics_def set_keys_obj_spread set_keys_obj_fromEntries)

lemma distinct_singleton:
  assumes "distinct names" "set names = {x}"
  shows "names = [x]"
proof (cases names)
  case Nil
  with assms show ?thesis by simp
next
  case (Cons y ys)
  with assms have "y = x" "set ys \<subseteq> {x}" "x \<notin> set ys" by auto
  then have "ys = []" by (cases ys) auto
  with Cons \<open>y = x\<close> show ?thesis by simp
qed

lemma orders_compiled: "compiled orders"
  by (simp add: orders_def example_model_def)

theorem convertTable_duplicated_names_witness:
  "(\<exists>d m c.
      compiled orders \<and>
      columnsReduce example_env POSTGRES orders (modelLabel example_env orders) ([], [])
        (obj_values (columns orders)) = Inr (d, m) \<and>
      convertedDbtMetricEntries example_env (DbtModelNode.name orders)
        (modelLabel example_env orders) [amount_metric] = Inr c \<and>
      set (obj_keys (allMetrics c m)) \<inter> set (obj_keys d) = {''amount''} \<and>
      convertTable example_env POSTGRES orders [amount_metric] =
        Inl (ParseError ''Found a metric and a dimension with the same name: amount'')) \<and>
   (\<exists>d m c.
      compiled orders \<and>
      columnsReduce example_env POSTGRES orders (modelLabel example_env orders) ([], [])
        (obj_values (columns orders)) = Inr (d, m) \<and>
      convertedDbtMetricEntries example_env (DbtModelNode.name orders)
        (modelLabel example_env orders) [total_revenue] = Inr c \<and>
      set (obj_keys (allMetrics c m)) \<inter> set (obj_keys d) = {} \<and>
      convertTable example_env POSTGRES orders [total_revenue] \<noteq>
        Inl (ParseError ''Found a metric and a dimension with the same name: total_revenue''))"
proof -
  from orders_columns obtain d m where
    dm: "columnsReduce example_env POSTGRES orders (modelLabel example_env orders) ([], [])
           (obj_values (columns orders)) = Inr (d, m)"
    and d: "obj_keys d = [''amount'', ''created'', ''created_DAY'', ''created_MONTH'']"
    and m: "obj_keys m = [''total_revenue'']"
    by blast
  from orders_converted_amount obtain c where
    c: "convertedDbtMetricEntries example_env (DbtModelNode.name orders)
          (modelLabel example_env orders) [amount_metric] = Inr c"
    and c': "map fst c = [''amount'']"
    by (elim exE conjE)
  have k: "set (obj_keys (allMetrics c m)) \<inter> set (obj_keys d) = {''amount''}"
    by (simp add: set_obj_keys_allMetrics c' d m)
  note w = convertTable_duplicated_names [OF orders_compiled dm c]
  from w k obtain names where
    e: "convertTable example_env POSTGRES orders [amount_metric] =
          Inl (ParseError
                 ((if length names > 1
                   then ''Found multiple metrics and a dimensions with the same name:''
                   else ''Found a metric and a dimension with the same name:'') @
                  '' '' @ joinWith '','' names))"
    and n: "distinct names" "set names = {''amount''}"
    by auto
  from n have "names = [''amount'']" by (rule distinct_singleton)
  with e have e': "convertTable example_env POSTGRES orders [amount_metric] =
        Inl (ParseError ''Found a metric and a dimension with the same name: amount'')"
    by simp
  from orders_converted obtain c2 where
    c2: "convertedDbtMetricEntries example_env (DbtModelNode.name orders)
          (modelLabel example_env orders) [total_revenue] = Inr c2"
    by blast
  have c2': "map fst c2 = [''total_revenue'']"
    using convertedDbtMetricEntries_names [OF c2] by (simp add: total_revenue_def)
  have k2: "set (obj_keys (allMetrics c2 m)) \<inter> set (obj_keys d) = {}"
    by (simp add: set_obj_keys_allMetrics c2' d m)
  note w2 = convertTable_duplicated_names [OF orders_compiled dm c2]
  have "convertTable example_env POSTGRES orders [total_revenue] \<noteq>
        Inl (ParseError ''Found a metric and a dimension with the same name: total_revenue'')"
    using w2 k2 by (auto simp: ParseError_def Error_def)
  with orders_compiled dm c k e' c2 k2 show ?thesis
    by blast
qed

subsection \<open>The dimensions of a table\<close>

lemma convertDimension_interval:
  assumes "convertDimension env adapterType model tlabel column src (Some interval) = Inr d"
    and "interval \<noteq> []"
  shows "Dimension.name d = DbtModelColumn.name column @ ''_'' @ toLowerCase env interval \<and>
         Dimension.group d = Some (DbtModelColumn.name column) \<and>
         Dimension.timeInterval d = Some interval"
  using assms
  by (auto simp: convertDimension_def truthy_def Let_def split: type_value.splits)

lemma convertDimension_base_type:
  assumes "convertDimension env adapterType model tlabel column src None = Inr d"
  shows "resolvedType column = Recognised (Dimension.type d)"
  using assms
  by (auto simp: convertDimension_def truthy_def Let_def split: type_value.splits)

lemma convertDimension_recognised:
  assumes "resolvedType column = Recognised ty"
  shows "\<exists>d. convertDimension env adapterType model tlabel column src iv = Inr d"
  using assms by (simp add: convertDimension_def Let_def)

lemma extraDimensionsReduce_other:
  assumes "extraDimensionsReduce env adapterType model tlabel column acc ivs = Inr ex"
    and "\<forall>r \<in> set ivs. k \<noteq> DbtModelColumn.name column @ ''_'' @ r"
  shows "obj_get ex k = obj_get acc k"
  using assms
proof (induction ivs arbitrary: acc)
  case Nil
  then show ?case by simp
next
  case (Cons j rest)
  from Cons.prems(1) obtain dj where
    "extraDimensionsReduce env adapterType model tlabel column
       (obj_set acc (DbtModelColumn.name column @ ''_'' @ j) dj) rest = Inr ex"
    by (auto split: sum.splits)
  then have "obj_get ex k = obj_get (obj_set acc (DbtModelColumn.name column @ ''_'' @ j) dj) k"
    using Cons.prems(2) by (intro Cons.IH) simp_all
  with Cons.prems(2) show ?case
    by (simp add: obj_get_obj_set)
qed

lemma extraDimensionsReduce_member:
  assumes "extraDimensionsReduce env adapterType model tlabel column acc ivs = Inr ex"
    and "i \<in> set ivs"
  shows "\<exists>d. convertDimension env adapterType model tlabel column None (Some i) = Inr d \<and>
             obj_get ex (DbtModelColumn.name column @ ''_'' @ i) = Some d"
  using assms
proof (induction ivs arbitrary: acc)
  case Nil
  then show ?case by simp
next
  case (Cons j rest)
  from Cons.prems(1) obtain dj where
    dj: "convertDimension env adapterType model tlabel column None (Some j) = Inr dj"
    and r: "extraDimensionsReduce env adapterType model tlabel column
       (obj_set acc (DbtModelColumn.name column @ ''_'' @ j) dj) rest = Inr ex"
    by (auto split: sum.splits)
  show ?case
  proof (cases "i \<in> set rest")
    case True
    then show ?thesis by (rule Cons.IH [OF r])
  next
    case False
    with Cons.prems(2) have ij: "i = j" by simp
    from False have "\<forall>r \<in> set rest.
        DbtModelColumn.name column @ ''_'' @ i \<noteq> DbtModelColumn.name column @ ''_'' @ r"
      by auto
    from extraDimensionsReduce_other [OF r this]
    have "obj_get ex (DbtModelColumn.name column @ ''_'' @ i) = Some dj"
      by (simp add: obj_get_obj_set ij)
    with dj ij show ?thesis by simp
  qed
qed

lemma extraDimensionsReduce_distinct:
  assumes "extraDimensionsReduce env adapterType model tlabel column acc ivs = Inr ex"
    and "distinct (map fst acc)"
  shows "distinct (map fst ex)"
  using assms
  by (induction ivs arbitrary: acc) (auto simp: distinct_obj_set split: sum.splits)

text \<open>The dimension map after the callback, key by key.\<close>

lemma convertColumn_dimensions:
  assumes "convertColumn env adapterType model tlabel prev column = Inr acc"
  obtains base extra where
    "convertDimension env adapterType model tlabel column None None = Inr base"
    "if expandsIntervals base column
     then (\<exists>ivs. columnIntervals env base column = Inr ivs \<and>
             extraDimensionsReduce env adapterType model tlabel column [] ivs = Inr extra)
     else extra = []"
    "distinct (map fst extra)"
    "\<forall>k. obj_get (fst acc) k =
           (case obj_get extra k of
              Some d \<Rightarrow> Some d
            | None \<Rightarrow> if k = DbtModelColumn.name column then Some base
                      else obj_get (fst prev) k)"
proof -
  from assms obtain base where
    b: "convertDimension env adapterType model tlabel column None None = Inr base"
    by (cases "convertDimension env adapterType model tlabel column None None")
       (simp_all add: convertColumn_def)
  define E where "E = (if expandsIntervals base column
             then (case columnIntervals env base column of
                     Inl e \<Rightarrow> Inl e
                   | Inr intervals \<Rightarrow>
                       extraDimensionsReduce env adapterType model tlabel column [] intervals)
             else Inr [])"
  from assms b obtain extra where
    e: "E = Inr extra"
    and a: "fst acc = obj_spread (obj_set (fst prev) (DbtModelColumn.name column) base) extra"
    by (cases E) (auto simp: convertColumn_def E_def)
  have x: "if expandsIntervals base column
            then (\<exists>ivs. columnIntervals env base column = Inr ivs \<and>
                    extraDimensionsReduce env adapterType model tlabel column [] ivs = Inr extra)
            else extra = []"
  proof (cases "expandsIntervals base column")
    case True
    with e show ?thesis
      by (cases "columnIntervals env base column") (simp_all add: E_def)
  next
    case False
    with e show ?thesis by (simp add: E_def)
  qed
  have d: "distinct (map fst extra)"
  proof (cases "expandsIntervals base column")
    case True
    with x obtain ivs where
      "extraDimensionsReduce env adapterType model tlabel column [] ivs = Inr extra"
      by auto
    then show ?thesis by (rule extraDimensionsReduce_distinct) simp
  next
    case False
    with x show ?thesis by simp
  qed
  have "\<forall>k. obj_get (fst acc) k =
                  (case obj_get extra k of
                     Some d \<Rightarrow> Some d
                   | None \<Rightarrow> if k = DbtModelColumn.name column then Some base
                             else obj_get (fst prev) k)"
    by (auto simp: a obj_get_obj_spread [OF d] obj_get_obj_set split: option.splits)
  with b x d show ?thesis by (rule that)
qed

lemma columnKeys_Inr:
  assumes "convertDimension env adapterType model tlabel column None None = Inr base"
  shows "set (columnKeys env adapterType model tlabel column) =
           insert (DbtModelColumn.name column)
             (if expandsIntervals base column
              then (case columnIntervals env base column of
                      Inl e \<Rightarrow> {}
                    | Inr ivs \<Rightarrow> (\<lambda>i. DbtModelColumn.name column @ ''_'' @ i) ` set ivs)
              else {})"
  by (cases "expandsIntervals base column"; cases "columnIntervals env base column")
     (simp_all add: columnKeys_def assms)

lemma convertColumn_other_keys:
  assumes "convertColumn env adapterType model tlabel prev column = Inr acc"
    and "k \<notin> set (columnKeys env adapterType model tlabel column)"
  shows "obj_get (fst acc) k = obj_get (fst prev) k"
proof (rule convertColumn_dimensions [OF assms(1)])
  fix base extra
  assume b: "convertDimension env adapterType model tlabel column None None = Inr base"
    and x: "if expandsIntervals base column
            then (\<exists>ivs. columnIntervals env base column = Inr ivs \<and>
                    extraDimensionsReduce env adapterType model tlabel column [] ivs = Inr extra)
            else extra = []"
    and g: "\<forall>k. obj_get (fst acc) k =
                  (case obj_get extra k of
                     Some d \<Rightarrow> Some d
                   | None \<Rightarrow> if k = DbtModelColumn.name column then Some base
                             else obj_get (fst prev) k)"
  note ck = columnKeys_Inr [OF b]
  from assms(2) have n: "k \<noteq> DbtModelColumn.name column"
    by (simp add: ck)
  have "obj_get extra k = None"
  proof (cases "expandsIntervals base column")
    case False
    with x show ?thesis by (simp add: obj_get_def)
  next
    case True
    with x obtain ivs where i: "columnIntervals env base column = Inr ivs"
      and r: "extraDimensionsReduce env adapterType model tlabel column [] ivs = Inr extra"
      by auto
    from assms(2) True i have "\<forall>r \<in> set ivs. k \<noteq> DbtModelColumn.name column @ ''_'' @ r"
      by (auto simp: ck)
    from extraDimensionsReduce_other [OF r this] show ?thesis
      by (simp add: obj_get_def)
  qed
  with g n show "obj_get (fst acc) k = obj_get (fst prev) k" by simp
qed

lemma columnsReduce_other_keys:
  assumes "columnsReduce env adapterType model tlabel prev cs = Inr res"
    and "\<forall>c \<in> set cs. k \<notin> set (columnKeys env adapterType model tlabel c)"
  shows "obj_get (fst res) k = obj_get (fst prev) k"
  using assms
proof (induction cs arbitrary: prev)
  case Nil
  then show ?case by simp
next
  case (Cons c cs)
  from Cons.prems(1) obtain acc where
    a: "convertColumn env adapterType model tlabel prev c = Inr acc"
    and r: "columnsReduce env adapterType model tlabel acc cs = Inr res"
    by (auto split: sum.splits)
  have "obj_get (fst res) k = obj_get (fst acc) k"
    using Cons.prems(2) by (intro Cons.IH [OF r]) simp
  also have "\<dots> = obj_get (fst prev) k"
    using Cons.prems(2) by (intro convertColumn_other_keys [OF a]) simp
  finally show ?case .
qed

lemma columnsReduce_append:
  assumes "columnsReduce env adapterType model tlabel prev (before @ c # after) = Inr res"
  shows "\<exists>mid acc. columnsReduce env adapterType model tlabel prev before = Inr mid \<and>
           convertColumn env adapterType model tlabel mid c = Inr acc \<and>
           columnsReduce env adapterType model tlabel acc after = Inr res"
  using assms
  by (induction before arbitrary: prev) (auto split: sum.splits)

text \<open>
  Claim C7, as amended. Let a column of a model have the resolved type \<^verbatim>\<open>DATE\<close> or
  \<^verbatim>\<open>TIMESTAMP\<close> and time intervals that are not \<^verbatim>\<open>OFF\<close>, and let
  \<^verbatim>\<open>convertTable\<close> return a table. For every interval of the column that is not empty
  (of the validated list when the column gives one, of the default time frames of the type
  otherwise), unless a later column writes the key: the dimension map holds under the key
  \<^verbatim>\<open><column>_<interval>\<close> a dimension whose name is the name of the column, an
  underscore and the interval in lower case, whose group is the name of the column and
  whose time interval is the interval. Unless a later column writes the name of the
  column, the map holds the base dimension under the name of the column.
\<close>

theorem convertTable_time_interval_dimensions:
  assumes "convertTable env adapterType model dbtMetrics = Inr t"
    and "obj_values (columns model) = before @ column # after"
    and "resolvedType column = Recognised ty"
    and "ty = DATE \<or> ty = TIMESTAMP"
    and "dimensionMeta column time_intervals \<noteq> Some (TimeIntervalsString ''OFF'')"
    and "(case dimensionMeta column time_intervals of
            Some (TimeIntervalsList l) \<Rightarrow> validateTimeFrames env l
          | _ \<Rightarrow> Inr (getDefaultTimeFrames env ty)) = Inr intervals"
    and "interval \<in> set intervals"
    and "interval \<noteq> []"
  shows "((\<forall>c \<in> set after. DbtModelColumn.name column @ ''_'' @ interval \<notin>
              set (columnKeys env adapterType model (modelLabel env model) c)) \<longrightarrow>
          (\<exists>d. obj_get (Table.dimensions t) (DbtModelColumn.name column @ ''_'' @ interval) = Some d \<and>
               Dimension.name d = DbtModelColumn.name column @ ''_'' @ toLowerCase env interval \<and>
               Dimension.group d = Some (DbtModelColumn.name column) \<and>
               Dimension.timeInterval d = Some interval)) \<and>
         ((\<forall>c \<in> set after. DbtModelColumn.name column \<notin>
              set (columnKeys env adapterType model (modelLabel env model) c)) \<longrightarrow>
          (\<exists>b. convertDimension env adapterType model (modelLabel env model) column None None =
                  Inr b \<and>
               obj_get (Table.dimensions t) (DbtModelColumn.name column) = Some b))"
proof -
  let ?tl = "modelLabel env model"
  let ?key = "DbtModelColumn.name column @ ''_'' @ interval"
  from convertTable_Inr [OF assms(1)] obtain d m where
    r: "columnsReduce env adapterType model ?tl ([], []) (obj_values (columns model)) = Inr (d, m)"
    and td: "Table.dimensions t = d"
    by auto
  from r obtain mid acc where
    c: "convertColumn env adapterType model ?tl mid column = Inr acc"
    and a: "columnsReduce env adapterType model ?tl acc after = Inr (d, m)"
    unfolding assms(2) by (auto dest: columnsReduce_append)
  obtain base extra where
    b: "convertDimension env adapterType model ?tl column None None = Inr base"
    and x: "if expandsIntervals base column
            then (\<exists>ivs. columnIntervals env base column = Inr ivs \<and>
                    extraDimensionsReduce env adapterType model ?tl column [] ivs = Inr extra)
            else extra = []"
    and "distinct (map fst extra)"
    and g: "\<forall>k. obj_get (fst acc) k =
                  (case obj_get extra k of
                     Some d \<Rightarrow> Some d
                   | None \<Rightarrow> if k = DbtModelColumn.name column then Some base
                             else obj_get (fst mid) k)"
    by (rule convertColumn_dimensions [OF c])
  from convertDimension_base_type [OF b] assms(3) have ty: "Dimension.type base = ty"
    by simp
  have ex: "expandsIntervals base column"
    using ty assms(4,5) by (auto simp: expandsIntervals_def)
  have ci: "columnIntervals env base column = Inr intervals"
    using assms(6)
    by (auto simp: columnIntervals_def ty split: option.splits time_intervals.splits)
  from x ex ci have e: "extraDimensionsReduce env adapterType model ?tl column [] intervals = Inr extra"
    by simp
  from extraDimensionsReduce_member [OF e assms(7)] obtain dd where
    dd: "convertDimension env adapterType model ?tl column None (Some interval) = Inr dd"
    and k: "obj_get extra ?key = Some dd"
    by blast
  have "\<forall>r \<in> set intervals. DbtModelColumn.name column \<noteq> DbtModelColumn.name column @ ''_'' @ r"
    by simp
  from extraDimensionsReduce_other [OF e this] have nb: "obj_get extra (DbtModelColumn.name column) = None"
    by (simp add: obj_get_def)
  show ?thesis
  proof (intro conjI impI)
    assume "\<forall>c \<in> set after. ?key \<notin> set (columnKeys env adapterType model ?tl c)"
    from columnsReduce_other_keys [OF a this] g k td
    have "obj_get (Table.dimensions t) ?key = Some dd" by simp
    with convertDimension_interval [OF dd assms(8)]
    show "\<exists>d. obj_get (Table.dimensions t) ?key = Some d \<and>
               Dimension.name d = DbtModelColumn.name column @ ''_'' @ toLowerCase env interval \<and>
               Dimension.group d = Some (DbtModelColumn.name column) \<and>
               Dimension.timeInterval d = Some interval"
      by simp
  next
    assume "\<forall>c \<in> set after. DbtModelColumn.name column \<notin>
              set (columnKeys env adapterType model ?tl c)"
    from columnsReduce_other_keys [OF a this] g nb td
    have "obj_get (Table.dimensions t) (DbtModelColumn.name column) = Some base" by simp
    with b show "\<exists>b. convertDimension env adapterType model ?tl column None None = Inr b \<and>
               obj_get (Table.dimensions t) (DbtModelColumn.name column) = Some b"
      by simp
  qed
qed

text \<open>
  The claim as stated fails on the model \<^verbatim>\<open>events\<close>: the name of the dimension under
  \<^verbatim>\<open>created_DAY\<close> is \<^verbatim>\<open>created_day\<close>, and the key \<^verbatim>\<open>created_MONTH\<close> holds the
  base dimension of the later column, which has no group.
\<close>

theorem convertTable_time_interval_dimensions_counterexample:
  "obj_values (columns events) =
     [created_column, example_column ''created_MONTH'' (Some (Recognised STRING)) None None] \<and>
   resolvedType created_column = Recognised DATE \<and>
   dimensionMeta created_column time_intervals = None \<and>
   getDefaultTimeFrames example_env DATE = [''DAY'', ''MONTH''] \<and>
   map_option Dimension.name
     (dimensionAt (convertTable example_env POSTGRES events []) ''created_DAY'') =
     Some ''created_day'' \<and>
   map_option Dimension.group
     (dimensionAt (convertTable example_env POSTGRES events []) ''created_MONTH'') = Some None"
  by code_simp

lemma orders_plain_table: "\<exists>t. convertTable example_env POSTGRES orders [] = Inr t"
proof -
  have "\<not> isl (convertTable example_env POSTGRES orders [])"
    by code_simp
  then show ?thesis
    by (cases "convertTable example_env POSTGRES orders []") auto
qed

lemma created_facts:
  "obj_values (columns orders) = [amount_column] @ created_column # []"
  "resolvedType created_column = Recognised DATE"
  "dimensionMeta created_column time_intervals \<noteq> Some (TimeIntervalsString ''OFF'')"
  "(case dimensionMeta created_column time_intervals of
      Some (TimeIntervalsList l) \<Rightarrow> validateTimeFrames example_env l
    | _ \<Rightarrow> Inr (getDefaultTimeFrames example_env DATE)) = Inr [''DAY'', ''MONTH'']"
  "DbtModelColumn.name created_column = ''created''"
  by code_simp+

theorem convertTable_time_interval_dimensions_witness:
  "\<exists>t. convertTable example_env POSTGRES orders [] = Inr t \<and>
       obj_values (columns orders) = [amount_column] @ created_column # [] \<and>
       resolvedType created_column = Recognised DATE \<and>
       dimensionMeta created_column time_intervals \<noteq> Some (TimeIntervalsString ''OFF'') \<and>
       (\<exists>d. obj_get (Table.dimensions t) ''created_DAY'' = Some d \<and>
            Dimension.name d = ''created_day'' \<and> Dimension.group d = Some ''created'' \<and>
            Dimension.timeInterval d = Some ''DAY'') \<and>
       (\<exists>b. convertDimension example_env POSTGRES orders (modelLabel example_env orders)
               created_column None None = Inr b \<and>
            obj_get (Table.dimensions t) ''created'' = Some b)"
proof -
  from orders_plain_table obtain t where
    t: "convertTable example_env POSTGRES orders [] = Inr t" by (elim exE)
  have l: "toLowerCase example_env ''DAY'' = ''day''" by code_simp
  note w = convertTable_time_interval_dimensions [OF t created_facts(1) created_facts(2) _
      created_facts(3) created_facts(4), of "''DAY''"]
  have "(\<exists>d. obj_get (Table.dimensions t) ''created_DAY'' = Some d \<and>
            Dimension.name d = ''created_day'' \<and> Dimension.group d = Some ''created'' \<and>
            Dimension.timeInterval d = Some ''DAY'')"
    using w by (simp add: created_facts(5) l)
  moreover have "(\<exists>b. convertDimension example_env POSTGRES orders (modelLabel example_env orders)
               created_column None None = Inr b \<and>
            obj_get (Table.dimensions t) ''created'' = Some b)"
    using w by (simp add: created_facts(5))
  ultimately show ?thesis
    using t created_facts(1-3) by (intro exI [of _ t] conjI)
qed

subsection \<open>Properties of \<open>convertExplores\<close>\<close>

lemma foldl_tablesStep:
  "foldl (tablesStep env callDepth loadSources adapterType ms lineage) (ts, es) models =
     (ts @ concat (map (\<lambda>model. case convertModelTable env callDepth loadSources adapterType ms
                                     lineage model of
                                Inl e \<Rightarrow> []
                              | Inr t \<Rightarrow> [t]) models),
      es @ concat (map (\<lambda>model. case convertModelTable env callDepth loadSources adapterType ms
                                     lineage model of
                                Inl e \<Rightarrow> [tableExploreError env model e]
                              | Inr t \<Rightarrow> []) models))"
  by (induction models arbitrary: ts es) (auto simp: tablesStep_def split: sum.splits)

lemma convertExplores_phases:
  "convertExplores env callDepth models loadSources adapterType ms =
     map (compileModel env adapterType
            (tableLookup (convertedTables env callDepth models loadSources adapterType ms)))
       (filter (\<lambda>model. obj_defined
                           (tableLookup (convertedTables env callDepth models loadSources adapterType ms))
                           (DbtModelNode.name model)) models) @
     map IsExploreError (tableErrors env callDepth models loadSources adapterType ms)"
  by (simp add: convertExplores_def Let_def foldl_tablesStep convertedTables_def tableErrors_def
      modelTable_def)

lemma tableLookup_entries:
  "tableLookup tables = obj_fromEntries (map (\<lambda>t. (Table.name t, t)) tables)"
  by (simp add: tableLookup_def obj_fromEntries_def foldl_map)

lemma tableLookup_defined:
  "obj_get (tableLookup tables) n \<noteq> None \<longleftrightarrow> n \<in> Table.name ` set tables"
proof -
  have "obj_get (tableLookup tables) n \<noteq> None \<longleftrightarrow> n \<in> fst ` set (tableLookup tables)"
    by (simp add: obj_get_def map_of_eq_None_iff)
  also have "\<dots> \<longleftrightarrow> n \<in> Table.name ` set tables"
    by (simp add: tableLookup_entries set_keys_obj_fromEntries image_image)
  finally show ?thesis .
qed

lemma convertModelTable_name:
  assumes "convertModelTable env callDepth loadSources adapterType ms lineage model = Inr t"
  shows "Table.name t = DbtModelNode.name model"
proof -
  from assms obtain tm t0 where
    "convertTable env adapterType model tm = Inr t0"
    and "t = t0 \<or> (\<exists>g. t = t0\<lparr>lineageGraph := Some g\<rparr>)"
    by (auto simp: convertModelTable_def split: option.splits sum.splits if_splits)
  with convertTable_Inr [of env adapterType model tm t0] show ?thesis
    by auto
qed

lemma convertedTables_member:
  "t \<in> set (convertedTables env callDepth models loadSources adapterType ms) \<longleftrightarrow>
     (\<exists>model \<in> set models.
        modelTable env callDepth models loadSources adapterType ms model = Inr t)"
  by (force simp: convertedTables_def split: sum.splits)

lemma obj_defined_tableLookup:
  "obj_defined (tableLookup (convertedTables env callDepth models loadSources adapterType ms)) n \<longleftrightarrow>
     n \<in> set objectPrototypeKeys \<or>
     (\<exists>other \<in> set models.
        DbtModelNode.name other = n \<and>
        \<not> isl (modelTable env callDepth models loadSources adapterType ms other))"
proof -
  have "n \<in> Table.name ` set (convertedTables env callDepth models loadSources adapterType ms) \<longleftrightarrow>
     (\<exists>other \<in> set models.
        DbtModelNode.name other = n \<and>
        \<not> isl (modelTable env callDepth models loadSources adapterType ms other))"
    (is "?L \<longleftrightarrow> ?R")
  proof
    assume ?L
    then obtain t other where "other \<in> set models"
      and t: "modelTable env callDepth models loadSources adapterType ms other = Inr t"
      and n: "n = Table.name t"
      by (auto simp: convertedTables_member)
    moreover from t have "Table.name t = DbtModelNode.name other"
      unfolding modelTable_def by (rule convertModelTable_name)
    ultimately show ?R by force
  next
    assume ?R
    then obtain other where o: "other \<in> set models" "DbtModelNode.name other = n"
      and "\<not> isl (modelTable env callDepth models loadSources adapterType ms other)"
      by auto
    then obtain t where
      t: "modelTable env callDepth models loadSources adapterType ms other = Inr t"
      by (cases "modelTable env callDepth models loadSources adapterType ms other") auto
    then have "Table.name t = DbtModelNode.name other"
      unfolding modelTable_def by (rule convertModelTable_name)
    with o t show ?L
      by (force simp: convertedTables_member)
  qed
  then show ?thesis
    unfolding obj_defined_def tableLookup_defined by blast
qed











lemma exploresOf_errors: "exploresOf (map IsExploreError es) = []"
  by (induction es) (simp_all add: exploresOf_def)

lemma exploresOf_append: "exploresOf (xs @ ys) = exploresOf xs @ exploresOf ys"
  by (simp add: exploresOf_def)

lemma exploresOf_map:
  "exploresOf (map f xs) =
     concat (map (\<lambda>x. case f x of IsExplore x \<Rightarrow> [x] | IsExploreError e \<Rightarrow> []) xs)"
  by (simp add: exploresOf_def comp_def)

lemma validModels_filter:
  "filter (\<lambda>model. obj_defined
                      (tableLookup (convertedTables env callDepth models loadSources adapterType ms))
                      (DbtModelNode.name model)) models =
   filter (\<lambda>model. DbtModelNode.name model \<in> set objectPrototypeKeys \<or>
                    (\<exists>other \<in> set models.
                       DbtModelNode.name other = DbtModelNode.name model \<and>
                       \<not> isl (modelTable env callDepth models loadSources adapterType ms other)))
     models"
  by (rule filter_cong) (simp_all only: obj_defined_tableLookup)

text \<open>
  Claim C2, as amended. The list that \<^verbatim>\<open>convertExplores\<close> returns is the results of the
  join stage for the models that pass its filter, which are those whose name is a
  property that every object inherits or the name of a model whose table converted, in
  the order of the input, each an explore or an \<^verbatim>\<open>ExploreError\<close> in the place of its
  model, followed by the \<^verbatim>\<open>ExploreError\<close>s of the table conversion in the order of the
  input. So the explores are in the order of their models, and no explore follows an error
  of the table conversion.
\<close>

theorem convertExplores_order:
  "let lookup = tableLookup (convertedTables env callDepth models loadSources adapterType ms);
       valid = filter (\<lambda>model. DbtModelNode.name model \<in> set objectPrototypeKeys \<or>
                                (\<exists>other \<in> set models.
                                   DbtModelNode.name other = DbtModelNode.name model \<and>
                                   \<not> isl (modelTable env callDepth models loadSources adapterType
                                            ms other)))
                 models;
       result = convertExplores env callDepth models loadSources adapterType ms
   in result =
        map (compileModel env adapterType lookup) valid @
        map IsExploreError (tableErrors env callDepth models loadSources adapterType ms) \<and>
      exploresOf result =
        concat (map (\<lambda>model. case compileModel env adapterType lookup model of
                               IsExplore x \<Rightarrow> [x]
                             | IsExploreError e \<Rightarrow> []) valid) \<and>
      exploresOf (map IsExploreError (tableErrors env callDepth models loadSources adapterType ms)) = []"
  unfolding Let_def
  by (simp add: convertExplores_phases validModels_filter exploresOf_errors exploresOf_append
      exploresOf_map)

text \<open>
  The claim as stated fails when the join stage throws for a model that comes before a
  model whose explore compiles: the \<^verbatim>\<open>ExploreError\<close> of \<^verbatim>\<open>payments\<close> stands before
  the explore of \<^verbatim>\<open>orders\<close>.
\<close>

theorem convertExplores_order_counterexample:
  "convertExplores example_env 5 [customers, payments, orders] False POSTGRES example_metrics =
     [IsExploreError
        \<lparr> ExploreError.name = ''payments'', label = ''payments'', tags = None,
          errors = [\<lparr> ExploreErrorEntry.type = Some ''CompileError'',
                       message = Some ''Failed to compile explore: joined table not found'' \<rparr>] \<rparr>,
      IsExplore ''orders'',
      IsExploreError
        \<lparr> ExploreError.name = ''customers'', label = ''customers'', tags = Some [],
          errors = [\<lparr> ExploreErrorEntry.type = Some ''NonCompiledModelError'',
                       message = Some ''Model has not been compiled by dbt'' \<rparr>] \<rparr>] \<and>
   \<not> errorsAfterExplores
       (convertExplores example_env 5 [customers, payments, orders] False POSTGRES example_metrics)"
  by code_simp

lemma example_order_facts:
  "concat (map (\<lambda>model. case compileModel example_env POSTGRES
                               (tableLookup (convertedTables example_env 5 [customers, payments, orders]
                                               False POSTGRES example_metrics)) model of
                          IsExplore x \<Rightarrow> [x]
                        | IsExploreError e \<Rightarrow> [])
             (filter (\<lambda>model. DbtModelNode.name model \<in> set objectPrototypeKeys \<or>
                                (\<exists>other \<in> set [customers, payments, orders].
                                   DbtModelNode.name other = DbtModelNode.name model \<and>
                                   \<not> isl (modelTable example_env 5 [customers, payments, orders]
                                            False POSTGRES example_metrics other)))
                [customers, payments, orders])) = [''orders'']"
  "filter (\<lambda>model. DbtModelNode.name model \<in> set objectPrototypeKeys \<or>
                                (\<exists>other \<in> set [customers, payments, orders].
                                   DbtModelNode.name other = DbtModelNode.name model \<and>
                                   \<not> isl (modelTable example_env 5 [customers, payments, orders]
                                            False POSTGRES example_metrics other)))
                [customers, payments, orders] = [payments, orders]"
  by code_simp+

theorem convertExplores_order_witness:
  "exploresOf (convertExplores example_env 5 [customers, payments, orders] False POSTGRES
                 example_metrics) = [''orders''] \<and>
   convertExplores example_env 5 [customers, payments, orders] False POSTGRES example_metrics =
     map (compileModel example_env POSTGRES
            (tableLookup (convertedTables example_env 5 [customers, payments, orders] False
                            POSTGRES example_metrics)))
       [payments, orders] @
     map IsExploreError
       (tableErrors example_env 5 [customers, payments, orders] False POSTGRES example_metrics)"
proof -
  note w = convertExplores_order [of example_env 5 "[customers, payments, orders]" False POSTGRES
      example_metrics, unfolded Let_def]
  have 1: "exploresOf (convertExplores example_env 5 [customers, payments, orders] False POSTGRES
                 example_metrics) = [''orders'']"
    using w [THEN conjunct2, THEN conjunct1] by (simp only: example_order_facts(1))
  have 2: "convertExplores example_env 5 [customers, payments, orders] False POSTGRES
        example_metrics =
     map (compileModel example_env POSTGRES
            (tableLookup (convertedTables example_env 5 [customers, payments, orders] False
                            POSTGRES example_metrics)))
       [payments, orders] @
     map IsExploreError
       (tableErrors example_env 5 [customers, payments, orders] False POSTGRES example_metrics)"
    using w [THEN conjunct1] by (simp only: example_order_facts(2))
  from 1 2 show ?thesis
    by (intro conjI)
qed

subsection \<open>Properties of \<open>attachTypesToModels\<close>\<close>

lemma attachColumnTypes_Inr:
  assumes "attachColumnTypes lower catalog throw cs model entries = Inr out"
  shows "list_all2
           (\<lambda>e c. fst c = fst e \<and>
                  (\<exists>t. getType lower catalog throw cs model (fst e) = Inr t \<and>
                       snd c = (snd e)\<lparr>data_type := map_option Recognised t\<rparr>))
           entries out"
  using assms
proof (induction entries arbitrary: out)
  case Nil
  then show ?case by simp
next
  case (Cons e entries)
  obtain k c where e: "e = (k, c)" by (cases e)
  from Cons.prems obtain t rest where
    t: "getType lower catalog throw cs model k = Inr t"
    and r: "attachColumnTypes lower catalog throw cs model entries = Inr rest"
    and o: "out = (k, c\<lparr>data_type := map_option Recognised t\<rparr>) # rest"
    unfolding e by (auto split: sum.splits)
  from Cons.IH [OF r] t show ?case
    unfolding o e by simp
qed

lemma attachModelTypes_Inr:
  assumes "attachModelTypes lower catalog throw cs models = Inr out"
  shows "list_all2
           (\<lambda>m m'. \<exists>es. attachColumnTypes lower catalog throw cs m (obj_entries (columns m)) = Inr es \<and>
                         m' = m\<lparr>columns := obj_fromEntries es\<rparr>)
           models out"
  using assms
proof (induction models arbitrary: out)
  case Nil
  then show ?case by simp
next
  case (Cons m models)
  from Cons.prems obtain es rest where
    "attachColumnTypes lower catalog throw cs m (obj_entries (columns m)) = Inr es"
    and r: "attachModelTypes lower catalog throw cs models = Inr rest"
    and "out = m\<lparr>columns := obj_fromEntries es\<rparr> # rest"
    by (auto split: sum.splits)
  with Cons.IH [OF r] show ?case by simp
qed

lemma attachTypesToModels_Inr:
  assumes "attachTypesToModels lower models catalog throw cs = Inr out"
  shows "list_all2
           (\<lambda>m m'. \<exists>es. attachColumnTypes lower catalog throw cs m (obj_entries (columns m)) = Inr es \<and>
                         m' = m\<lparr>columns := obj_fromEntries es\<rparr>)
           models out"
  using assms
  by (auto simp: attachTypesToModels_def split: sum.splits intro: attachModelTypes_Inr)

lemma map_insort_key_fst:
  "map fst (insort_key (\<lambda>kv. f (fst kv)) x xs) = insort_key f (fst x) (map fst xs)"
  by (induction xs) auto

lemma map_sort_key_fst:
  "map fst (sort_key (\<lambda>kv. f (fst kv)) xs) = sort_key f (map fst xs)"
  by (induction xs) (simp_all add: map_insort_key_fst)

lemma obj_keys_keyOrder: "obj_keys obj = keyOrder (map fst obj)"
  by (simp add: obj_keys_def obj_entries_def keyOrder_def map_sort_key_fst filter_map comp_def)

lemma keyOrder_idem: "keyOrder (keyOrder ks) = keyOrder ks"
proof -
  let ?s = "sort_key decimalValue (filter isArrayIndex ks)"
  let ?r = "filter (\<lambda>k. \<not> isArrayIndex k) ks"
  have 1: "filter isArrayIndex (?s @ ?r) = ?s"
    by (simp add: filter_sort [symmetric])
  have 2: "filter (\<lambda>k. \<not> isArrayIndex k) (?s @ ?r) = ?r"
    by (simp add: filter_sort [symmetric])
  have 3: "sort_key decimalValue ?s = ?s"
    by (rule sort_key_id_if_sorted) simp
  show ?thesis
    unfolding keyOrder_def [of "keyOrder ks"] unfolding keyOrder_def [of ks] 1 2 3 ..
qed

lemma foldl_obj_set_distinct:
  assumes "distinct (map fst (acc @ es))"
  shows "foldl (\<lambda>acc kv. obj_set acc (fst kv) (snd kv)) acc es = acc @ es"
  using assms
proof (induction es arbitrary: acc)
  case Nil
  then show ?case by simp
next
  case (Cons e es)
  from Cons.prems have n: "map_of acc (fst e) = None"
    by (auto simp: map_of_eq_None_iff)
  then have s: "obj_set acc (fst e) (snd e) = acc @ [e]"
    by (simp add: obj_set_def)
  from Cons.prems have "distinct (map fst ((acc @ [e]) @ es))" by simp
  from Cons.IH [OF this] show ?case by (simp add: s)
qed

lemma obj_fromEntries_distinct: "distinct (map fst es) \<Longrightarrow> obj_fromEntries es = es"
  unfolding obj_fromEntries_def using foldl_obj_set_distinct [of "[]" es] by simp

lemma truthy_and_str: "truthy (and_str a b) \<Longrightarrow> and_str a b = b \<and> truthy b"
  by (auto simp: and_str_def)

lemma getType_None:
  assumes "getType lower catalog throw cs model k = Inr None"
  shows "\<not> throw"
proof (cases "truthy (columnMatch lower catalog cs model k)")
  case False
  with assms show ?thesis
    by (auto simp: getType_def split: if_splits)
next
  case True
  let ?X = "obj_at (obj_at (obj_at catalog (databaseMatch lower catalog cs model))
                      (schemaMatch lower catalog cs model))
              (tableMatch lower catalog cs model)"
  from True have f: "columnMatch lower catalog cs model k = find (\<lambda>c. keyMatches lower cs c k) (obj_keys ?X)"
    and t: "truthy (find (\<lambda>c. keyMatches lower cs c k) (obj_keys ?X))"
    unfolding columnMatch_def by (auto dest!: truthy_and_str)
  from t obtain c where c: "find (\<lambda>c. keyMatches lower cs c k) (obj_keys ?X) = Some c" and "c \<noteq> []"
    by (auto simp: truthy_def split: option.splits)
  then have "c \<in> set (obj_keys ?X)"
    by (auto simp: find_Some_iff)
  then have "obj_get ?X c \<noteq> None"
    by (simp add: set_obj_keys obj_get_def map_of_eq_None_iff)
  moreover have "or_str (columnMatch lower catalog cs model k) [] = c"
    using f c \<open>c \<noteq> []\<close> by (simp add: or_str_def)
  ultimately show ?thesis
    using assms by (auto simp: getType_def split: if_splits)
qed

lemma attached_lookup:
  assumes "list_all2
           (\<lambda>e c. fst c = fst e \<and>
                  (\<exists>t. getType lower catalog throw cs model (fst e) = Inr t \<and>
                       snd c = (snd e)\<lparr>data_type := map_option Recognised t\<rparr>))
           entries out"
    and "map_of entries k = Some column"
  shows "\<exists>t. getType lower catalog throw cs model k = Inr t \<and>
             map_of out k = Some (column\<lparr>data_type := map_option Recognised t\<rparr>)"
  using assms
proof (induction rule: list_all2_induct)
  case Nil
  then show ?case by simp
next
  case (Cons e entries c out)
  then show ?case
    by (cases e; cases c) (auto split: if_splits)
qed

lemma attached_keys:
  assumes "list_all2
           (\<lambda>e c. fst c = fst e \<and>
                  (\<exists>t. getType lower catalog throw cs model (fst e) = Inr t \<and>
                       snd c = (snd e)\<lparr>data_type := map_option Recognised t\<rparr>))
           entries out"
  shows "map fst out = map fst entries"
  using assms by (induction rule: list_all2_induct) simp_all

lemma attached_data_type:
  assumes "list_all2
           (\<lambda>e c. fst c = fst e \<and>
                  (\<exists>t. getType lower catalog throw cs model (fst e) = Inr t \<and>
                       snd c = (snd e)\<lparr>data_type := map_option Recognised t\<rparr>))
           entries out"
    and "kc \<in> set out"
  shows "\<exists>t. data_type (snd kc) = map_option Recognised t"
  using assms by (induction rule: list_all2_induct) auto

text \<open>
  Claim C10. When \<^verbatim>\<open>attachTypesToModels\<close> returns, for models whose column maps have
  each key once: the list has the length of the input; the model at each position is the
  input model at that position with other columns; the column map has the same keys in
  the same order; and the column under a key is the input column under that key with its
  data type replaced by what \<^verbatim>\<open>getType\<close> returns for the model and the key, which is
  undefined only when \<^verbatim>\<open>throwOnMissingCatalogEntry\<close> is false. This holds for every
  function \<open>lower\<close> in the place of \<^verbatim>\<open>toLowerCase\<close>.
\<close>

theorem attachTypesToModels_frame:
  assumes "attachTypesToModels lower models catalog throw cs = Inr models'"
    and "\<forall>m \<in> set models. distinct (map fst (columns m))"
  shows "length models' = length models \<and>
         (\<forall>i < length models.
            models' ! i = (models ! i)\<lparr>columns := columns (models' ! i)\<rparr> \<and>
            obj_keys (columns (models' ! i)) = obj_keys (columns (models ! i)) \<and>
            (\<forall>k column.
               obj_get (columns (models ! i)) k = Some column \<longrightarrow>
               (\<exists>t. getType lower catalog throw cs (models ! i) k = Inr t \<and>
                    (t = None \<longrightarrow> \<not> throw) \<and>
                    obj_get (columns (models' ! i)) k =
                      Some (column\<lparr>data_type := map_option Recognised t\<rparr>))))"
proof -
  note l = attachTypesToModels_Inr [OF assms(1)]
  then have len: "length models' = length models"
    by (simp add: list_all2_lengthD)
  have "models' ! i = (models ! i)\<lparr>columns := columns (models' ! i)\<rparr> \<and>
            obj_keys (columns (models' ! i)) = obj_keys (columns (models ! i)) \<and>
            (\<forall>k column.
               obj_get (columns (models ! i)) k = Some column \<longrightarrow>
               (\<exists>t. getType lower catalog throw cs (models ! i) k = Inr t \<and>
                    (t = None \<longrightarrow> \<not> throw) \<and>
                    obj_get (columns (models' ! i)) k =
                      Some (column\<lparr>data_type := map_option Recognised t\<rparr>)))"
    if i: "i < length models" for i
  proof -
    let ?m = "models ! i"
    from l i obtain es where
      a: "attachColumnTypes lower catalog throw cs ?m (obj_entries (columns ?m)) = Inr es"
      and m': "models' ! i = ?m\<lparr>columns := obj_fromEntries es\<rparr>"
      by (auto simp: list_all2_conv_all_nth)
    from assms(2) i have d: "distinct (map fst (columns ?m))" by simp
    note r = attachColumnTypes_Inr [OF a]
    have k: "map fst es = obj_keys (columns ?m)"
      using attached_keys [OF r] by (simp add: obj_keys_def)
    then have "distinct (map fst es)"
      using d by (simp add: distinct_obj_keys)
    then have f: "obj_fromEntries es = es"
      by (rule obj_fromEntries_distinct)
    have c: "columns (models' ! i) = es"
      by (simp add: m' f)
    have 1: "models' ! i = ?m\<lparr>columns := columns (models' ! i)\<rparr>"
      by (simp add: m')
    have 2: "obj_keys (columns (models' ! i)) = obj_keys (columns ?m)"
      unfolding c obj_keys_keyOrder [of es] k
      unfolding obj_keys_keyOrder [of "columns ?m"] by (rule keyOrder_idem)
    have 3: "\<exists>t. getType lower catalog throw cs ?m k = Inr t \<and> (t = None \<longrightarrow> \<not> throw) \<and>
                 obj_get (columns (models' ! i)) k =
                   Some (column\<lparr>data_type := map_option Recognised t\<rparr>)"
      if "obj_get (columns ?m) k = Some column" for k column
    proof -
      from that have "map_of (obj_entries (columns ?m)) k = Some column"
        by (simp add: map_of_obj_entries [OF d] obj_get_def)
      from attached_lookup [OF r this] obtain t where
        t: "getType lower catalog throw cs ?m k = Inr t"
        and o: "map_of es k = Some (column\<lparr>data_type := map_option Recognised t\<rparr>)"
        by blast
      from t have "t = None \<longrightarrow> \<not> throw"
        by (auto dest: getType_None)
      with t o show ?thesis
        by (simp add: c obj_get_def)
    qed
    from 1 2 3 show ?thesis by blast
  qed
  with len show ?thesis by blast
qed

lemma set_obj_set_subset: "set (obj_set obj k v) \<subseteq> insert (k, v) (set obj)"
  by (auto simp: obj_set_def split: if_splits)

lemma set_foldl_obj_set_subset:
  "set (foldl (\<lambda>acc kv. obj_set acc (fst kv) (snd kv)) acc es) \<subseteq> set acc \<union> set es"
proof (induction es arbitrary: acc)
  case Nil
  then show ?case by simp
next
  case (Cons e es)
  from Cons.IH [of "obj_set acc (fst e) (snd e)"] set_obj_set_subset [of acc "fst e" "snd e"]
  show ?case by auto
qed

lemma set_obj_fromEntries_subset: "set (obj_fromEntries es) \<subseteq> set es"
  unfolding obj_fromEntries_def using set_foldl_obj_set_subset [of "[]" es] by simp

text \<open>
  Claim C8, as amended. When \<^verbatim>\<open>attachTypesToModels\<close> returns, every column of its output
  that has a data type, and whose \<^verbatim>\<open>meta.dimension.type\<close> is undefined, empty or a
  Lightdash dimension type, is converted by \<^verbatim>\<open>convertDimension\<close> without an error.
\<close>

theorem attachTypesToModels_convertDimension:
  assumes "attachTypesToModels lower models catalog throw cs = Inr models'"
    and "m' \<in> set models'"
    and "(k, column) \<in> set (columns m')"
    and "data_type column \<noteq> None"
    and "case dimensionMeta column DbtColumnDimensionMeta.type of
           Some (Unrecognised s) \<Rightarrow> s = []
         | _ \<Rightarrow> True"
  shows "\<exists>d. convertDimension env adapterType model tlabel column src interval = Inr d"
proof -
  from attachTypesToModels_Inr [OF assms(1)] assms(2) obtain m es where
    a: "attachColumnTypes lower catalog throw cs m (obj_entries (columns m)) = Inr es"
    and m': "m' = m\<lparr>columns := obj_fromEntries es\<rparr>"
    by (auto simp: list_all2_conv_all_nth in_set_conv_nth)
  from assms(3) have "(k, column) \<in> set es"
    using set_obj_fromEntries_subset [of es] by (auto simp: m')
  from attached_data_type [OF attachColumnTypes_Inr [OF a] this]
  obtain t where "data_type column = map_option Recognised t"
    by auto
  with assms(4) obtain ty where ty: "data_type column = Some (Recognised ty)"
    by (cases t) auto
  have "\<exists>ty'. resolvedType column = Recognised ty'"
    using assms(5) ty
    by (auto simp: resolvedType_def or_type_def split: option.splits type_value.splits)
  then show ?thesis
    by (auto dest: convertDimension_recognised)
qed

text \<open>
  The claim as stated fails for a column that asks for the dimension type \<^verbatim>\<open>integer\<close>:
  the catalog gives the column the type \<^verbatim>\<open>NUMBER\<close>, and the type that the column asks
  for still comes first.
\<close>

theorem attachTypesToModels_convertDimension_counterexample:
  "attachTypesToModels lowerASCII [integer_orders] example_catalog True True = Inr [integer_orders_typed] \<and>
   columns integer_orders_typed = [(''amount'', integer_amount_column_typed)] \<and>
   data_type integer_amount_column_typed = Some (Recognised DimensionType.NUMBER) \<and>
   convertDimension example_env POSTGRES integer_orders_typed ''orders''
     integer_amount_column_typed None None =
     Inl (MissingCatalogEntryError (unrecognisedTypeMessage ''integer'' ''amount'' ''orders''))"
  by code_simp

lemma example_attach_facts:
  "attachTypesToModels lowerASCII [orders] example_catalog True True = Inr [orders]"
  "distinct (map fst (columns orders))"
  "obj_keys (columns orders) = [''amount'', ''created'']"
  "obj_get (columns orders) ''created'' = Some created_column"
  "(''amount'', amount_column) \<in> set (columns orders)"
  "data_type amount_column \<noteq> None"
  "dimensionMeta amount_column DbtColumnDimensionMeta.type = None"
  by code_simp+

lemma example_attach_customers_facts:
  "\<not> isl (attachTypesToModels lowerASCII [customers] example_catalog False True)"
  "distinct (map fst (columns customers))"
  "obj_get (columns customers) ''customer_id'' = Some customer_id_column"
  "data_type customer_id_column \<noteq> None"
  "getType lowerASCII example_catalog False True customers ''customer_id'' = Inr None"
  by code_simp+

text \<open>
  Matching without regard to case finds the types of \<^verbatim>\<open>WAREHOUSE\<close> under the catalog's
  \<^verbatim>\<open>warehouse\<close>; matching with regard to case throws.
\<close>

lemma attachTypesToModels_capitals:
  "attachTypesToModels lowerASCII [capital_orders] example_catalog True False =
     Inr [capital_orders]"
  "getType lowerASCII example_catalog True False capital_orders ''AMOUNT'' =
     Inr (Some DimensionType.NUMBER)"
  "isl (attachTypesToModels lowerASCII [capital_orders] example_catalog True True)"
  by code_simp+

theorem attachTypesToModels_frame_witness:
  "attachTypesToModels lowerASCII [orders] example_catalog True True = Inr [orders] \<and>
   distinct (map fst (columns orders)) \<and>
   obj_get (columns orders) ''created'' = Some created_column \<and>
   (\<exists>t. getType lowerASCII example_catalog True True orders ''created'' = Inr t \<and> t \<noteq> None \<and>
        created_column = created_column\<lparr>data_type := map_option Recognised t\<rparr>) \<and>
   (\<exists>models'.
      attachTypesToModels lowerASCII [customers] example_catalog False True = Inr models' \<and>
      length models' = 1 \<and>
      models' ! 0 = customers\<lparr>columns := columns (models' ! 0)\<rparr> \<and>
      obj_keys (columns (models' ! 0)) = obj_keys (columns customers) \<and>
      obj_get (columns customers) ''customer_id'' = Some customer_id_column \<and>
      data_type customer_id_column \<noteq> None \<and>
      obj_get (columns (models' ! 0)) ''customer_id'' =
        Some (customer_id_column\<lparr>data_type := None\<rparr>))"
proof -
  have d: "\<forall>m \<in> set [orders]. distinct (map fst (columns m))"
    using example_attach_facts(2) by simp
  note w = attachTypesToModels_frame [OF example_attach_facts(1) d]
  from w have q: "\<forall>k column.
               obj_get (columns orders) k = Some column \<longrightarrow>
               (\<exists>t. getType lowerASCII example_catalog True True orders k = Inr t \<and>
                    (t = None \<longrightarrow> \<not> True) \<and>
                    obj_get (columns orders) k =
                      Some (column\<lparr>data_type := map_option Recognised t\<rparr>))"
    by simp
  from q [rule_format, OF example_attach_facts(4)] obtain t where
    t: "getType lowerASCII example_catalog True True orders ''created'' = Inr t"
    and n: "t = None \<longrightarrow> \<not> True"
    and c: "obj_get (columns orders) ''created'' =
              Some (created_column\<lparr>data_type := map_option Recognised t\<rparr>)"
    by (elim exE conjE)
  have 1: "\<exists>t. getType lowerASCII example_catalog True True orders ''created'' = Inr t \<and> t \<noteq> None \<and>
        created_column = created_column\<lparr>data_type := map_option Recognised t\<rparr>"
    using t n c example_attach_facts(4) by auto
  from example_attach_customers_facts(1) obtain models' where
    a: "attachTypesToModels lowerASCII [customers] example_catalog False True = Inr models'"
    by (cases "attachTypesToModels lowerASCII [customers] example_catalog False True") auto
  have d2: "\<forall>m \<in> set [customers]. distinct (map fst (columns m))"
    using example_attach_customers_facts(2) by simp
  note c0 = example_attach_customers_facts(3)
  note w2 = attachTypesToModels_frame [OF a d2]
  from w2 have l: "length models' = 1" by simp
  from w2 have i: "models' ! 0 = ([customers] ! 0)\<lparr>columns := columns (models' ! 0)\<rparr> \<and>
            obj_keys (columns (models' ! 0)) = obj_keys (columns ([customers] ! 0)) \<and>
            (\<forall>k column.
               obj_get (columns ([customers] ! 0)) k = Some column \<longrightarrow>
               (\<exists>t. getType lowerASCII example_catalog False True ([customers] ! 0) k = Inr t \<and>
                    (t = None \<longrightarrow> \<not> False) \<and>
                    obj_get (columns (models' ! 0)) k =
                      Some (column\<lparr>data_type := map_option Recognised t\<rparr>)))"
    by simp
  then have m: "models' ! 0 = customers\<lparr>columns := columns (models' ! 0)\<rparr>"
    and k: "obj_keys (columns (models' ! 0)) = obj_keys (columns customers)"
    by simp_all
  from i have q2: "\<forall>k column.
               obj_get (columns customers) k = Some column \<longrightarrow>
               (\<exists>t. getType lowerASCII example_catalog False True customers k = Inr t \<and>
                    (t = None \<longrightarrow> \<not> False) \<and>
                    obj_get (columns (models' ! 0)) k =
                      Some (column\<lparr>data_type := map_option Recognised t\<rparr>))"
    by simp
  from q2 [rule_format, OF c0] obtain t2 where
    "getType lowerASCII example_catalog False True customers ''customer_id'' = Inr t2"
    and "obj_get (columns (models' ! 0)) ''customer_id'' =
           Some (customer_id_column\<lparr>data_type := map_option Recognised t2\<rparr>)"
    by (elim exE conjE)
  with example_attach_customers_facts(5)
  have o: "obj_get (columns (models' ! 0)) ''customer_id'' =
             Some (customer_id_column\<lparr>data_type := None\<rparr>)"
    by simp
  have 2: "\<exists>models'.
      attachTypesToModels lowerASCII [customers] example_catalog False True = Inr models' \<and>
      length models' = 1 \<and>
      models' ! 0 = customers\<lparr>columns := columns (models' ! 0)\<rparr> \<and>
      obj_keys (columns (models' ! 0)) = obj_keys (columns customers) \<and>
      obj_get (columns customers) ''customer_id'' = Some customer_id_column \<and>
      data_type customer_id_column \<noteq> None \<and>
      obj_get (columns (models' ! 0)) ''customer_id'' =
        Some (customer_id_column\<lparr>data_type := None\<rparr>)"
    using a l m k c0 example_attach_customers_facts(4) o by (intro exI [of _ models'] conjI)
  from example_attach_facts(1,2,4) 1 2 show ?thesis
    by (intro conjI)
qed

theorem attachTypesToModels_convertDimension_witness:
  "attachTypesToModels lowerASCII [orders] example_catalog True True = Inr [orders] \<and>
   (''amount'', amount_column) \<in> set (columns orders) \<and>
   data_type amount_column \<noteq> None \<and>
   dimensionMeta amount_column DbtColumnDimensionMeta.type = None \<and>
   (\<exists>d. convertDimension example_env POSTGRES orders ''orders'' amount_column None None = Inr d)"
proof -
  have m: "orders \<in> set [orders]" by simp
  have o: "case dimensionMeta amount_column DbtColumnDimensionMeta.type of
             Some (Unrecognised s) \<Rightarrow> s = []
           | _ \<Rightarrow> True"
    by (simp add: example_attach_facts(7))
  from attachTypesToModels_convertDimension [OF example_attach_facts(1) m
      example_attach_facts(5) example_attach_facts(6) o]
  have "\<exists>d. convertDimension example_env POSTGRES orders ''orders'' amount_column None None = Inr d" .
  with example_attach_facts(1,5,6,7) show ?thesis
    by (intro conjI)
qed

end
